theory Spec2Isabelle
  imports Complex_Main "HOL-Library.Monad_Syntax" "HOL-Library.Multiset"
begin

section \<open>Values and built-in operations of the host language\<close>

text \<open>
  The program is JavaScript. Feed payloads are parsed JSON, and price fields of a station
  hold whatever the feed or the caller put there, so both are modelled by one datatype of
  values. Numbers are modelled as exact reals together with the not-a-number value, which
  the code produces (a failed \<open>parseFloat\<close>) and tests (\<open>isNaN\<close>, truthiness); rounding
  of doubles, signed zero and the infinities are outside the model. Strings are lists of
  8-bit characters, and letter case is that of the ASCII letters. The property list of an
  \<open>Obj\<close> is in the enumeration order of the object, with distinct keys.
\<close>

datatype jsval =
    Undefined
  | Null
  | Bool bool
  | NaN
  | Num real
  | Str string
  | Arr "jsval list"
  | Obj "(string \<times> jsval) list"

text \<open>Truthiness, as tested by \<open>if (v)\<close>, \<open>!v\<close>, \<open>v ? a : b\<close>, \<open>a || b\<close> and \<open>a && b\<close>.\<close>

fun truthy :: "jsval \<Rightarrow> bool" where
  "truthy Undefined = False"
| "truthy Null = False"
| "truthy (Bool b) = b"
| "truthy NaN = False"
| "truthy (Num r) = (r \<noteq> 0)"
| "truthy (Str s) = (s \<noteq> [])"
| "truthy (Arr xs) = True"
| "truthy (Obj kvs) = True"

text \<open>\<open>a || b\<close>: the first operand when it is truthy, the second otherwise.\<close>

definition orElse :: "jsval \<Rightarrow> jsval \<Rightarrow> jsval" where
  "orElse a b = (if truthy a then a else b)"

definition nullish :: "jsval \<Rightarrow> bool" where
  "nullish v = (v = Undefined \<or> v = Null)"

text \<open>\<open>typeof v === 'number'\<close>, \<open>typeof v === 'string'\<close>, \<open>typeof v === 'object'\<close> and
  \<open>Array.isArray(v)\<close>.\<close>

fun isNumber :: "jsval \<Rightarrow> bool" where
  "isNumber (Num r) = True"
| "isNumber NaN = True"
| "isNumber v = False"

fun isString :: "jsval \<Rightarrow> bool" where
  "isString (Str s) = True"
| "isString v = False"

fun isObject :: "jsval \<Rightarrow> bool" where
  "isObject Null = True"
| "isObject (Arr xs) = True"
| "isObject (Obj kvs) = True"
| "isObject v = False"

fun isArray :: "jsval \<Rightarrow> bool" where
  "isArray (Arr xs) = True"
| "isArray v = False"

text \<open>
  Reading a property \<open>v.k\<close> of a value that is neither \<open>undefined\<close> nor \<open>null\<close>. On an
  object the read gives the property's value, or \<open>undefined\<close> when the object has no such
  property. None of the keys the program reads is a built-in property of a string, number,
  boolean or array, so there the read gives \<open>undefined\<close>. On \<open>undefined\<close> and \<open>null\<close> the
  read throws a TypeError; the functions below test \<open>nullish\<close> at each place where the
  base may be one of the two, and give the exception as \<open>None\<close>.
\<close>

fun propOf :: "jsval \<Rightarrow> string \<Rightarrow> jsval" where
  "propOf (Obj kvs) k = (case map_of kvs k of Some v \<Rightarrow> v | None \<Rightarrow> Undefined)"
| "propOf v k = Undefined"

subsection \<open>Characters and strings\<close>

definition lowerLetters :: string where
  "lowerLetters = ''abcdefghijklmnopqrstuvwxyz''"

definition upperLetters :: string where
  "upperLetters = ''ABCDEFGHIJKLMNOPQRSTUVWXYZ''"

definition decimalDigits :: string where
  "decimalDigits = ''0123456789''"

definition toUpperChar :: "char \<Rightarrow> char" where
  "toUpperChar c = (case map_of (zip lowerLetters upperLetters) c of Some u \<Rightarrow> u | None \<Rightarrow> c)"


definition toUpperCase :: "string \<Rightarrow> string" where
  "toUpperCase s = map toUpperChar s"


text \<open>White space (\<open>\s\<close>, and what \<open>trim\<close> and \<open>parseFloat\<close> strip): tab, line feed,
  vertical tab, form feed, carriage return and space.\<close>

definition isWhiteSpace :: "char \<Rightarrow> bool" where
  "isWhiteSpace c = (c \<in> set [CHR 0x09, CHR 0x0A, CHR 0x0B, CHR 0x0C, CHR 0x0D, CHR 0x20])"

definition isDigit :: "char \<Rightarrow> bool" where
  "isDigit c = (c \<in> set decimalDigits)"

definition trimStart :: "string \<Rightarrow> string" where
  "trimStart s = dropWhile isWhiteSpace s"

definition trim :: "string \<Rightarrow> string" where
  "trim s = rev (dropWhile isWhiteSpace (rev (dropWhile isWhiteSpace s)))"

text \<open>\<open>s.includes(q)\<close>: \<open>q\<close> occurs in \<open>s\<close> as a contiguous substring.\<close>

definition startsWith :: "string \<Rightarrow> string \<Rightarrow> bool" where
  "startsWith s q = (take (length q) s = q)"

fun includesStr :: "string \<Rightarrow> string \<Rightarrow> bool" where
  "includesStr [] q = (q = [])"
| "includesStr (c # cs) q = (startsWith (c # cs) q \<or> includesStr cs q)"

subsection \<open>Numbers and strings\<close>

definition digitVal :: "char \<Rightarrow> nat" where
  "digitVal c = (case map_of (zip decimalDigits [0, 1, 2, 3, 4, 5, 6, 7, 8, 9]) c of Some d \<Rightarrow> d | None \<Rightarrow> 0)"

definition digitsToNat :: "string \<Rightarrow> nat" where
  "digitsToNat ds = foldl (\<lambda>a c. 10 * a + digitVal c) 0 ds"

text \<open>
  \<open>parseFloat\<close> on a string: leading white space is skipped, then the longest prefix that
  is a decimal literal is read: an optional sign, digits with an optional fraction (or a
  fraction alone), and an exponent when the indicator is followed by a signed run of
  digits. Without such a prefix the result is NaN. The literal \<open>Infinity\<close>, which the
  language also reads, is outside the number model.
\<close>

definition splitSign :: "string \<Rightarrow> bool \<times> string" where
  "splitSign s = (case s of
      [] \<Rightarrow> (False, [])
    | c # cs \<Rightarrow> if c = CHR ''-'' then (True, cs) else if c = CHR ''+'' then (False, cs) else (False, s))"

definition exponentPart :: "string \<Rightarrow> int" where
  "exponentPart s = (case s of
      [] \<Rightarrow> 0
    | c # cs \<Rightarrow>
        if c = CHR ''e'' \<or> c = CHR ''E'' then
          (let (neg, ds) = splitSign cs; es = takeWhile isDigit ds
           in if es = [] then 0 else if neg then - int (digitsToNat es) else int (digitsToNat es))
        else 0)"

definition scale10 :: "real \<Rightarrow> int \<Rightarrow> real" where
  "scale10 r e = (if 0 \<le> e then r * 10 ^ nat e else r / 10 ^ nat (- e))"

definition parseFloatStr :: "string \<Rightarrow> jsval" where
  "parseFloatStr s =
    (let (neg, u) = splitSign (trimStart s);
         ip = takeWhile isDigit u;
         r1 = dropWhile isDigit u;
         hasDot = (r1 \<noteq> [] \<and> hd r1 = CHR ''.'');
         fp = (if hasDot then takeWhile isDigit (tl r1) else []);
         r2 = (if hasDot then dropWhile isDigit (tl r1) else r1)
     in if ip = [] \<and> fp = [] then NaN
        else
          (let m = real (digitsToNat ip) + real (digitsToNat fp) / 10 ^ length fp;
               v = scale10 m (exponentPart r2)
           in Num (if neg then - v else v)))"

text \<open>
  Conversion of a number to a string: the decimal digits of the integer part, then the
  fraction digit by digit (at most twenty of them). This is the language's conversion on
  integers and on finite decimal fractions of ordinary size; exponent notation is not
  modelled.
\<close>

fun natToString :: "nat \<Rightarrow> string" where
  "natToString n =
    (if n < 10 then [decimalDigits ! n]
     else natToString (n div 10) @ [decimalDigits ! (n mod 10)])"

definition intToString :: "int \<Rightarrow> string" where
  "intToString i = (if i < 0 then CHR ''-'' # natToString (nat (- i)) else natToString (nat i))"

fun fractionDigits :: "nat \<Rightarrow> real \<Rightarrow> string" where
  "fractionDigits 0 f = []"
| "fractionDigits (Suc n) f =
    (if f = 0 then []
     else (let d = nat \<lfloor>f * 10\<rfloor>
           in (decimalDigits ! d) # fractionDigits n (f * 10 - real d)))"

definition numToString :: "real \<Rightarrow> string" where
  "numToString r =
    (let a = \<bar>r\<bar>; ip = nat \<lfloor>a\<rfloor>; f = a - real ip
     in (if r < 0 then ''-'' else []) @ natToString ip
        @ (if f = 0 then [] else CHR ''.'' # fractionDigits 20 f))"

text \<open>Joining strings with a separator, as \<open>Array.prototype.join\<close> does.\<close>

fun joinWith :: "string \<Rightarrow> string list \<Rightarrow> string" where
  "joinWith sep [] = []"
| "joinWith sep [x] = x"
| "joinWith sep (x # y # ys) = x @ sep @ joinWith sep (y # ys)"

text \<open>
  Conversion of a value to a string, as a template literal and \<open>toString\<close> do: an array
  is its elements joined by commas, with \<open>undefined\<close> and \<open>null\<close> elements empty, and an
  object is \<open>[object Object]\<close> (a property of the object named \<open>toString\<close> is not
  consulted).
\<close>

fun toStringJ :: "jsval \<Rightarrow> string" where
  "toStringJ Undefined = ''undefined''"
| "toStringJ Null = ''null''"
| "toStringJ (Bool b) = (if b then ''true'' else ''false'')"
| "toStringJ NaN = ''NaN''"
| "toStringJ (Num r) = numToString r"
| "toStringJ (Str s) = s"
| "toStringJ (Arr xs) = joinWith '','' (map (\<lambda>x. if x = Undefined \<or> x = Null then [] else toStringJ x) xs)"
| "toStringJ (Obj kvs) = ''[object Object]''"

text \<open>
  \<open>parseFloat(v)\<close> converts its argument to a string and parses that. A number converts
  and parses back to itself.
\<close>

definition parseFloat :: "jsval \<Rightarrow> jsval" where
  "parseFloat v = (case v of Num r \<Rightarrow> Num r | NaN \<Rightarrow> NaN | _ \<Rightarrow> parseFloatStr (toStringJ v))"

text \<open>Arithmetic on the result of \<open>parseFloat\<close>, a number or NaN; NaN propagates.\<close>

definition numTimes :: "jsval \<Rightarrow> real \<Rightarrow> jsval" where
  "numTimes v k = (case v of Num r \<Rightarrow> Num (r * k) | _ \<Rightarrow> NaN)"

definition numDividedBy :: "jsval \<Rightarrow> real \<Rightarrow> jsval" where
  "numDividedBy v k = (case v of Num r \<Rightarrow> Num (r / k) | _ \<Rightarrow> NaN)"


section \<open>The weekly price schedule\<close>



definition supermarkets :: "string list" where
  "supermarkets =
    [''ASDA'', ''TESCO'', ''SAINSBURYS'', ''MORRISONS'', ''SAINSBURY'S'', ''MORRISON'S'']"

text \<open>
  \<open>isSupermarketBrand(brand)\<close> is \<open>supermarkets.includes(brand?.toUpperCase())\<close>; a brand
  that is absent (\<open>None\<close>) gives \<open>undefined\<close>, which the list does not contain.
\<close>

definition isSupermarketBrand :: "string option \<Rightarrow> bool" where
  "isSupermarketBrand brand =
    (case brand of None \<Rightarrow> False | Some b \<Rightarrow> toUpperCase b \<in> set supermarkets)"

section \<open>Stations and directory sites\<close>

text \<open>
  A directory site, as \<open>loadUKFuelsSites\<close> builds it: numeric site numbers and
  coordinates, upper-cased and trimmed text, and capability flags. A flag is stored as
  \<open>x || y || false\<close> and only ever tested for truthiness; the model keeps that truth value.
  Fields whose names a station also has carry the prefix \<open>site_\<close>.
\<close>

record site =
  siteNo :: int
  altSiteNo :: int
  site_latitude :: real
  site_longitude :: real
  siteName :: string
  street1 :: string
  site_town :: string
  postCode :: string
  site_brand :: string
  site_hours24 :: bool
  site_hgvAccess :: bool
  petrol :: bool
  diesel :: bool
  site_bands :: string

text \<open>
  A station object. The normalizer builds it with the fields up to \<open>facilities\<close>; the
  matching engine adds the directory fields, and the distance sort adds \<open>distance\<close>. A
  field that an object does not have is \<open>None\<close>. The text fields have type \<open>'t\<close>: raw
  feed values in the normalizer's output, which copies them from the feed as they are, and
  strings in the matching engine, the price rules and the filter, which call string methods
  on them. Price fields hold a number, a string or \<open>null\<close>. The field \<open>id\<close> of the source
  is \<open>id'\<close> here.
\<close>

record 't station =
  id' :: string
  brand :: 't
  name :: 't
  address :: 't
  postcode :: 't
  town :: 't
  latitude :: real
  longitude :: real
  petrol_price :: jsval
  diesel_price :: jsval
  super_price :: jsval
  last_updated :: 't
  is_open :: "bool option"
  facilities :: jsval
  ukFuelsSiteNo :: "int option"
  ukFuelsAltSiteNo :: "int option"
  hasLivePricing :: "bool option"
  hours24 :: "bool option"
  hgvAccess :: "bool option"
  isUKFuelsSite :: "bool option"
  bands :: "string option"
  distance :: "real option"

text \<open>The national averages handed to the matching engine; the argument may be absent.\<close>

record averages =
  avg_petrol :: jsval
  avg_diesel :: jsval

section \<open>The matching engine\<close>

definition isUpperAlnum :: "char \<Rightarrow> bool" where
  "isUpperAlnum c = (c \<in> set upperLetters \<or> isDigit c)"

text \<open>
  \<open>normalizeString\<close>: empty for an empty string; otherwise upper-case, trim, delete every
  character outside \<open>A-Z0-9\<close>, delete white space.
\<close>

definition normalizeString :: "string \<Rightarrow> string" where
  "normalizeString str =
    (if str = [] then []
     else filter (\<lambda>c. \<not> isWhiteSpace c) (filter isUpperAlnum (trim (toUpperCase str))))"

text \<open>
  The three indices over the directory are objects used as maps from a key to the array of
  sites with that key. \<open>pushTo\<close> is \<open>if (!m[k]) m[k] = []; m[k].push(site)\<close>.
\<close>

record siteIndex =
  ukFuelsPostcodeMap :: "string \<rightharpoonup> site list"
  ukFuelsNameMap :: "string \<rightharpoonup> site list"
  ukFuelsBrandTownMap :: "string \<rightharpoonup> site list"

definition pushTo :: "(string \<rightharpoonup> site list) \<Rightarrow> string \<Rightarrow> site \<Rightarrow> (string \<rightharpoonup> site list)" where
  "pushTo m k s = m(k \<mapsto> (case m k of None \<Rightarrow> [] | Some l \<Rightarrow> l) @ [s])"

definition emptyIndex :: siteIndex where
  "emptyIndex =
    \<lparr> ukFuelsPostcodeMap = Map.empty, ukFuelsNameMap = Map.empty, ukFuelsBrandTownMap = Map.empty \<rparr>"

definition brandTownKey :: "string \<Rightarrow> string \<Rightarrow> string" where
  "brandTownKey normBrand normTown = normBrand @ ''_'' @ normTown"

definition indexSite :: "siteIndex \<Rightarrow> site \<Rightarrow> siteIndex" where
  "indexSite idx s =
    (let normPostcode = normalizeString (postCode s);
         normName = normalizeString (siteName s);
         normBrand = normalizeString (site_brand s);
         normTown = normalizeString (site_town s);
         idx1 = (if normPostcode \<noteq> []
                 then idx\<lparr>ukFuelsPostcodeMap := pushTo (ukFuelsPostcodeMap idx) normPostcode s\<rparr>
                 else idx);
         idx2 = (if normName \<noteq> []
                 then idx1\<lparr>ukFuelsNameMap := pushTo (ukFuelsNameMap idx1) normName s\<rparr>
                 else idx1)
     in if normBrand \<noteq> [] \<and> normTown \<noteq> []
        then idx2\<lparr>ukFuelsBrandTownMap :=
                    pushTo (ukFuelsBrandTownMap idx2) (brandTownKey normBrand normTown) s\<rparr>
        else idx2)"

definition buildIndex :: "site list \<Rightarrow> siteIndex" where
  "buildIndex ukFuelsSites = foldl indexSite emptyIndex ukFuelsSites"

text \<open>\<open>xs[0]\<close>, which is \<open>undefined\<close> (here \<open>None\<close>) on an empty array.\<close>

definition first :: "'a list \<Rightarrow> 'a option" where
  "first xs = (case xs of [] \<Rightarrow> None | x # rest \<Rightarrow> Some x)"

text \<open>Strategy 1: the postcode index.\<close>

definition postcodeMatch :: "siteIndex \<Rightarrow> string station \<Rightarrow> site option" where
  "postcodeMatch idx station =
    (let stationPostcode = normalizeString (postcode station);
         stationBrand = normalizeString (brand station)
     in if stationPostcode \<noteq> [] then
          (case ukFuelsPostcodeMap idx stationPostcode of
             None \<Rightarrow> None
           | Some candidates \<Rightarrow>
               if length candidates = 1 then first candidates
               else (case find (\<lambda>c. normalizeString (site_brand c) = stationBrand) candidates of
                       Some c \<Rightarrow> Some c
                     | None \<Rightarrow> first candidates))
        else None)"

text \<open>
  Strategy 2: the scan for a close site. The state of the loop is the closest site so far
  and the current threshold \<open>minDistance\<close>, which starts at 0.01.
\<close>

definition planarDistance :: "string station \<Rightarrow> site \<Rightarrow> real" where
  "planarDistance station ukSite =
    sqrt ((latitude station - site_latitude ukSite)\<^sup>2 + (longitude station - site_longitude ukSite)\<^sup>2)"

definition proximityStep :: "string station \<Rightarrow> site option \<times> real \<Rightarrow> site \<Rightarrow> site option \<times> real" where
  "proximityStep station st ukSite =
    (let closestSite = fst st; minDistance = snd st;
         stationBrand = normalizeString (brand station);
         d = planarDistance station ukSite
     in if d < minDistance then
          (let brandsMatch = (includesStr (normalizeString (site_brand ukSite)) stationBrand
                              \<or> includesStr stationBrand (normalizeString (site_brand ukSite)))
           in if d < 1 / 1000 \<or> brandsMatch then (Some ukSite, d) else st)
        else st)"

definition proximityMatch :: "site list \<Rightarrow> string station \<Rightarrow> site option" where
  "proximityMatch ukFuelsSites station = fst (foldl (proximityStep station) (None, 1 / 100) ukFuelsSites)"

text \<open>Strategy 3: the brand and town index.\<close>

definition brandTownMatch :: "siteIndex \<Rightarrow> string station \<Rightarrow> site option" where
  "brandTownMatch idx station =
    (case ukFuelsBrandTownMap idx
            (brandTownKey (normalizeString (brand station)) (normalizeString (town station))) of
       None \<Rightarrow> None
     | Some candidates \<Rightarrow> first candidates)"

text \<open>The site matched to one live station, if any: the body of the loop over the live
  stations up to the test \<open>if (matchedSite)\<close>. Each later strategy runs only when the
  earlier ones found nothing; the proximity scan also needs both coordinates to be
  non-zero, and the brand and town lookup needs both normalized strings to be non-empty.\<close>

definition findMatch :: "siteIndex \<Rightarrow> site list \<Rightarrow> string station \<Rightarrow> site option" where
  "findMatch idx ukFuelsSites station =
    (let stationBrand = normalizeString (brand station);
         stationTown = normalizeString (town station);
         m1 = postcodeMatch idx station;
         m2 = (if m1 = None \<and> latitude station \<noteq> 0 \<and> longitude station \<noteq> 0
               then proximityMatch ukFuelsSites station else m1)
     in if m2 = None \<and> stationBrand \<noteq> [] \<and> stationTown \<noteq> []
        then brandTownMatch idx station else m2)"

text \<open>\<open>a && b\<close> on a flag and a label, and the list of facility labels that are kept.\<close>

definition facilityLabels :: "bool \<Rightarrow> bool \<Rightarrow> jsval" where
  "facilityLabels h24 hgv =
    Arr (filter truthy [if h24 then Str ''24 Hours'' else Bool False,
                        if hgv then Str ''HGV Access'' else Bool False])"

text \<open>\<open>a || b\<close> on two strings: the first when it is not empty, the second otherwise.\<close>

definition orText :: "string \<Rightarrow> string \<Rightarrow> string" where
  "orText a b = (if a \<noteq> [] then a else b)"

definition mergedStation :: "site \<Rightarrow> string station \<Rightarrow> string station" where
  "mergedStation matchedSite station =
    station\<lparr>
      id' := ''matched-'' @ intToString (siteNo matchedSite) @ ''-'' @ id' station,
      ukFuelsSiteNo := Some (siteNo matchedSite),
      ukFuelsAltSiteNo := Some (altSiteNo matchedSite),
      name := orText (siteName matchedSite) (name station),
      address := orText (street1 matchedSite) (address station),
      town := orText (site_town matchedSite) (town station),
      postcode := orText (postCode matchedSite) (postcode station),
      latitude := site_latitude matchedSite,
      longitude := site_longitude matchedSite,
      petrol_price := petrol_price station,
      diesel_price := diesel_price station,
      super_price := super_price station,
      hasLivePricing := Some True,
      hours24 := Some (site_hours24 matchedSite),
      hgvAccess := Some (site_hgvAccess matchedSite),
      facilities := facilityLabels (site_hours24 matchedSite) (site_hgvAccess matchedSite),
      isUKFuelsSite := Some True,
      bands := Some (site_bands matchedSite) \<rparr>"

text \<open>
  The record synthesized for a directory site. \<open>now\<close> is the reading of the clock,
  \<open>new Date().toISOString()\<close>, at the moment the record is built; the clock is read anew
  for each record.
\<close>

definition averageOrNull :: "averages option \<Rightarrow> (averages \<Rightarrow> jsval) \<Rightarrow> jsval" where
  "averageOrNull averagePrices field =
    orElse (case averagePrices of None \<Rightarrow> Undefined | Some a \<Rightarrow> field a) Null"

definition unmatchedUKSite :: "string \<Rightarrow> averages option \<Rightarrow> site \<Rightarrow> string station" where
  "unmatchedUKSite now averagePrices ukSite =
    \<lparr> id' = ''uk-fuels-only-'' @ intToString (siteNo ukSite),
      brand = site_brand ukSite,
      name = siteName ukSite,
      address = street1 ukSite,
      postcode = postCode ukSite,
      town = site_town ukSite,
      latitude = site_latitude ukSite,
      longitude = site_longitude ukSite,
      petrol_price = averageOrNull averagePrices avg_petrol,
      diesel_price = averageOrNull averagePrices avg_diesel,
      super_price = Null,
      last_updated = now,
      is_open = None,
      facilities = facilityLabels (site_hours24 ukSite) (site_hgvAccess ukSite),
      ukFuelsSiteNo = Some (siteNo ukSite),
      ukFuelsAltSiteNo = Some (altSiteNo ukSite),
      hasLivePricing = Some False,
      hours24 = Some (site_hours24 ukSite),
      hgvAccess = Some (site_hgvAccess ukSite),
      isUKFuelsSite = Some True,
      bands = Some (site_bands ukSite),
      distance = None \<rparr>"

text \<open>
  The state of the two loops: the arrays \<open>matched\<close> and \<open>unmatched\<close> and the set
  \<open>matchedUKFuelsSiteIds\<close>.
\<close>

record matchState =
  st_matched :: "string station list"
  st_unmatched :: "string station list"
  matchedUKFuelsSiteIds :: "int set"

definition processStation :: "siteIndex \<Rightarrow> site list \<Rightarrow> matchState \<Rightarrow> string station \<Rightarrow> matchState" where
  "processStation idx ukFuelsSites st station =
    (case findMatch idx ukFuelsSites station of
       Some matchedSite \<Rightarrow>
         st\<lparr> matchedUKFuelsSiteIds := insert (siteNo matchedSite) (matchedUKFuelsSiteIds st),
             st_matched := st_matched st @ [mergedStation matchedSite station] \<rparr>
     | None \<Rightarrow> st\<lparr> st_unmatched := st_unmatched st @ [station] \<rparr>)"

text \<open>One round of the loop over the directory, on a site paired with the reading of the
  clock in that round.\<close>

definition processSite :: "averages option \<Rightarrow> matchState \<Rightarrow> string \<times> site \<Rightarrow> matchState" where
  "processSite averagePrices st timedSite =
    (let now = fst timedSite; ukSite = snd timedSite in
     if siteNo ukSite \<notin> matchedUKFuelsSiteIds st then
       (if petrol ukSite \<or> diesel ukSite
        then st\<lparr> st_matched := st_matched st @ [unmatchedUKSite now averagePrices ukSite] \<rparr>
        else st)
     else st)"

text \<open>The directory sites, each paired with the reading of the clock in its round of the
  second loop: \<open>clock k\<close> is the reading in round \<open>k\<close>.\<close>

definition timedSites :: "(nat \<Rightarrow> string) \<Rightarrow> site list \<Rightarrow> (string \<times> site) list" where
  "timedSites clock ukFuelsSites = zip (map clock [0 ..< length ukFuelsSites]) ukFuelsSites"

record matchResult =
  matched :: "string station list"
  unmatched :: "string station list"
  liveCount :: nat

definition matchStationsWithUKFuels ::
    "(nat \<Rightarrow> string) \<Rightarrow> string station list \<Rightarrow> site list \<Rightarrow> averages option \<Rightarrow> matchResult" where
  "matchStationsWithUKFuels clock liveStations ukFuelsSites averagePrices =
    (let idx = buildIndex ukFuelsSites;
         st0 = \<lparr> st_matched = [], st_unmatched = [], matchedUKFuelsSiteIds = {} \<rparr>;
         st1 = foldl (processStation idx ukFuelsSites) st0 liveStations;
         st2 = foldl (processSite averagePrices) st1 (timedSites clock ukFuelsSites)
     in \<lparr> matched = st_matched st2,
          unmatched = st_unmatched st2,
          liveCount = length (filter (\<lambda>s. hasLivePricing s = Some True) (st_matched st2)) \<rparr>)"

text \<open>
  Notions used to state what the engine computes. The claimed site numbers are the numbers
  of the sites that \<open>findMatch\<close> gives for the live stations; they are the contents of
  \<open>matchedUKFuelsSiteIds\<close> after the first loop. \<open>liveEntry\<close> is the merged record a live
  station contributes to \<open>matched\<close>, if it is matched. \<open>eraseStamp\<close> blanks the time stamp
  of a synthesized record, the one field that holds the reading of the clock.
\<close>

definition claimedSiteNos :: "string station list \<Rightarrow> site list \<Rightarrow> int set" where
  "claimedSiteNos liveStations ukFuelsSites =
    {n. \<exists>s \<in> set liveStations.
          map_option siteNo (findMatch (buildIndex ukFuelsSites) ukFuelsSites s) = Some n}"

definition liveEntry :: "siteIndex \<Rightarrow> site list \<Rightarrow> string station \<Rightarrow> string station option" where
  "liveEntry idx ukFuelsSites station =
    map_option (\<lambda>m. mergedStation m station) (findMatch idx ukFuelsSites station)"

definition eraseStamp :: "string station \<Rightarrow> string station" where
  "eraseStamp s = (if hasLivePricing s = Some False then s\<lparr>last_updated := []\<rparr> else s)"

section \<open>The feed normalizer\<close>

text \<open>\<open>a || b || ... || d\<close>: the first truthy operand, or the last operand.\<close>

fun anyOf :: "jsval list \<Rightarrow> jsval \<Rightarrow> jsval" where
  "anyOf [] d = d"
| "anyOf (x # xs) d = (if truthy x then x else anyOf xs d)"

text \<open>\<open>isNaN(v) ? 0 : v\<close> on the result of \<open>parseFloat\<close>.\<close>

definition nanToZero :: "jsval \<Rightarrow> real" where
  "nanToZero v = (case v of Num r \<Rightarrow> r | _ \<Rightarrow> 0)"

text \<open>
  The coordinates of a raw record, before the test for NaN. The record itself is neither
  \<open>undefined\<close> nor \<open>null\<close> here, and every nested read is behind a truthiness test of its
  base, so no read in this part throws.
\<close>

definition extractCoordinates :: "jsval \<Rightarrow> jsval \<times> jsval" where
  "extractCoordinates station =
    (let location = propOf station ''location'';
         geo = propOf station ''geo'';
         coords = propOf station ''coords''
     in if truthy location \<and> isObject location then
          (parseFloat (anyOf [propOf location ''latitude'', propOf location ''lat''] (Num 0)),
           parseFloat (anyOf [propOf location ''longitude'', propOf location ''lng'',
                              propOf location ''lon''] (Num 0)))
        else if truthy (propOf station ''latitude'') \<and> truthy (propOf station ''longitude'') then
          (parseFloat (propOf station ''latitude''), parseFloat (propOf station ''longitude''))
        else if truthy (propOf station ''lat'') \<and>
                (truthy (propOf station ''lng'') \<or> truthy (propOf station ''lon'')
                 \<or> truthy (propOf station ''long'')) then
          (parseFloat (propOf station ''lat''),
           parseFloat (anyOf [propOf station ''lng'', propOf station ''lon''] (propOf station ''long'')))
        else if truthy geo then
          (parseFloat (anyOf [propOf geo ''lat''] (Num 0)),
           parseFloat (anyOf [propOf geo ''lng'', propOf geo ''lon''] (Num 0)))
        else if truthy coords then
          (parseFloat (anyOf [propOf coords ''latitude'', propOf coords ''lat''] (Num 0)),
           parseFloat (anyOf [propOf coords ''longitude'', propOf coords ''lng''] (Num 0)))
        else (Num 0, Num 0))"

text \<open>The object literal \<open>parsedStation\<close>, with the three prices still \<open>null\<close>.\<close>

definition initialStation :: "string \<Rightarrow> string \<Rightarrow> jsval \<Rightarrow> nat \<Rightarrow> jsval station" where
  "initialStation now retailerName station index =
    \<lparr> id' = retailerName @ ''-'' @
            toStringJ (anyOf [propOf station ''id'', propOf station ''site_id'',
                              propOf station ''store_id'', propOf station ''location_id'',
                              propOf station ''number''] (Num (real index))),
      brand = anyOf [propOf station ''brand'', propOf station ''brand_name''] (Str retailerName),
      name = anyOf [propOf station ''name'', propOf station ''site_name'',
                    propOf station ''store_name'', propOf station ''trading_name'',
                    propOf station ''location_name''] (Str (retailerName @ '' Station'')),
      address = anyOf [propOf station ''address'', propOf station ''street'',
                       propOf station ''street_address'', propOf station ''address_line_1''] (Str []),
      postcode = anyOf [propOf station ''postcode'', propOf station ''post_code'',
                        propOf station ''postal_code'', propOf station ''zip''] (Str []),
      town = anyOf [propOf station ''town'', propOf station ''city'', propOf station ''locality''] (Str []),
      latitude = nanToZero (fst (extractCoordinates station)),
      longitude = nanToZero (snd (extractCoordinates station)),
      petrol_price = Null,
      diesel_price = Null,
      super_price = Null,
      last_updated = anyOf [propOf station ''last_updated'', propOf station ''updated_at''] (Str now),
      is_open = Some (propOf station ''is_open'' \<noteq> Bool False \<and> propOf station ''status'' \<noteq> Str ''closed''),
      facilities = anyOf [propOf station ''facilities'', propOf station ''amenities'',
                          propOf station ''services''] (Arr []),
      ukFuelsSiteNo = None,
      ukFuelsAltSiteNo = None,
      hasLivePricing = None,
      hours24 = None,
      hgvAccess = None,
      isUKFuelsSite = None,
      bands = None,
      distance = None \<rparr>"

text \<open>The block \<open>if (station.prices)\<close>: the four fuel codes in pence, then the three
  named prices.\<close>

definition applyPrices :: "jsval \<Rightarrow> jsval station \<Rightarrow> jsval station" where
  "applyPrices station ps =
    (let prices = propOf station ''prices'' in
     if truthy prices then
       (let p1 = (if isNumber (propOf prices ''E10'')
                  then ps\<lparr>petrol_price := numDividedBy (propOf prices ''E10'') 100\<rparr> else ps);
            p2 = (if isNumber (propOf prices ''E5'')
                  then p1\<lparr>super_price := numDividedBy (propOf prices ''E5'') 100\<rparr> else p1);
            p3 = (if isNumber (propOf prices ''B7'')
                  then p2\<lparr>diesel_price := numDividedBy (propOf prices ''B7'') 100\<rparr> else p2);
            p4 = (if isNumber (propOf prices ''SDV'') \<and> \<not> truthy (diesel_price p3)
                  then p3\<lparr>diesel_price := numDividedBy (propOf prices ''SDV'') 100\<rparr> else p3);
            p5 = (if truthy (propOf prices ''unleaded'')
                  then p4\<lparr>petrol_price := parseFloat (propOf prices ''unleaded'')\<rparr> else p4);
            p6 = (if truthy (propOf prices ''diesel'')
                  then p5\<lparr>diesel_price := parseFloat (propOf prices ''diesel'')\<rparr> else p5)
        in if truthy (propOf prices ''super_unleaded'')
           then p6\<lparr>super_price := parseFloat (propOf prices ''super_unleaded'')\<rparr> else p6)
     else ps)"

text \<open>
  The block \<open>if (station.fuel_type_services)\<close>. Calling \<open>forEach\<close> on a value that is not
  an array throws, and so does reading \<open>fuel.fuel_type\<close> of an entry that is \<open>undefined\<close>
  or \<open>null\<close>; \<open>None\<close> is the exception.
\<close>

definition applyFuel :: "jsval station \<Rightarrow> jsval \<Rightarrow> jsval station option" where
  "applyFuel ps fuel =
    (if nullish fuel then None
     else
       (let fuel_type = propOf fuel ''fuel_type'';
            price = numDividedBy (parseFloat (propOf fuel ''price'')) 100
        in Some (if fuel_type = Str ''ULDS'' \<or> fuel_type = Str ''Unleaded''
                 then ps\<lparr>petrol_price := price\<rparr>
                 else if fuel_type = Str ''ULSD'' \<or> fuel_type = Str ''Diesel''
                 then ps\<lparr>diesel_price := price\<rparr>
                 else if fuel_type = Str ''SUL'' \<or> fuel_type = Str ''Super Unleaded''
                 then ps\<lparr>super_price := price\<rparr>
                 else ps)))"

fun forEachThrowing :: "('s \<Rightarrow> 'a \<Rightarrow> 's option) \<Rightarrow> 's \<Rightarrow> 'a list \<Rightarrow> 's option" where
  "forEachThrowing f s [] = Some s"
| "forEachThrowing f s (x # xs) =
    (case f s x of None \<Rightarrow> None | Some s' \<Rightarrow> forEachThrowing f s' xs)"

definition applyFuelTypeServices :: "jsval \<Rightarrow> jsval station \<Rightarrow> jsval station option" where
  "applyFuelTypeServices station ps =
    (let services = propOf station ''fuel_type_services'' in
     if truthy services then
       (case services of Arr fuels \<Rightarrow> forEachThrowing applyFuel ps fuels | _ \<Rightarrow> None)
     else Some ps)"

text \<open>The block \<open>if (station.fuelPrices)\<close>.\<close>

definition applyFuelPrices :: "jsval \<Rightarrow> jsval station \<Rightarrow> jsval station" where
  "applyFuelPrices station ps =
    (let fuelPrices = propOf station ''fuelPrices'' in
     if truthy fuelPrices then
       (let p1 = (if truthy (propOf fuelPrices ''E10'')
                  then ps\<lparr>petrol_price := numDividedBy (parseFloat (propOf fuelPrices ''E10'')) 100\<rparr>
                  else ps);
            p2 = (if truthy (propOf fuelPrices ''B7'')
                  then p1\<lparr>diesel_price := numDividedBy (parseFloat (propOf fuelPrices ''B7'')) 100\<rparr>
                  else p1)
        in if truthy (propOf fuelPrices ''E5'')
           then p2\<lparr>super_price := numDividedBy (parseFloat (propOf fuelPrices ''E5'')) 100\<rparr>
           else p2)
     else ps)"

text \<open>The fallback cascade, entered only when neither petrol nor diesel is truthy.
  \<open>station.fuel_prices?.unleaded\<close> is \<open>undefined\<close> when \<open>fuel_prices\<close> is absent.\<close>

definition optionalProp :: "jsval \<Rightarrow> string \<Rightarrow> jsval" where
  "optionalProp v k = (if nullish v then Undefined else propOf v k)"

definition applyFallback :: "jsval \<Rightarrow> jsval station \<Rightarrow> jsval station" where
  "applyFallback station ps =
    (if \<not> truthy (petrol_price ps) \<and> \<not> truthy (diesel_price ps) then
       (let p1 = (if truthy (propOf station ''unleaded'')
                  then ps\<lparr>petrol_price := numDividedBy (parseFloat (propOf station ''unleaded'')) 100\<rparr>
                  else ps);
            p2 = (if truthy (propOf station ''diesel'')
                  then p1\<lparr>diesel_price := numDividedBy (parseFloat (propOf station ''diesel'')) 100\<rparr>
                  else p1);
            p3 = (if truthy (propOf station ''super_unleaded'')
                  then p2\<lparr>super_price := numDividedBy (parseFloat (propOf station ''super_unleaded'')) 100\<rparr>
                  else p2);
            p4 = (if truthy (propOf station ''unleaded_price'')
                  then p3\<lparr>petrol_price := parseFloat (propOf station ''unleaded_price'')\<rparr> else p3);
            p5 = (if truthy (propOf station ''diesel_price'')
                  then p4\<lparr>diesel_price := parseFloat (propOf station ''diesel_price'')\<rparr> else p4);
            p6 = (if truthy (propOf station ''super_unleaded_price'')
                  then p5\<lparr>super_price := parseFloat (propOf station ''super_unleaded_price'')\<rparr>
                  else p5);
            p7 = (if truthy (propOf station ''petrol'')
                  then p6\<lparr>petrol_price := parseFloat (propOf station ''petrol'')\<rparr> else p6);
            p8 = (if truthy (propOf station ''petrol_price'')
                  then p7\<lparr>petrol_price := parseFloat (propOf station ''petrol_price'')\<rparr> else p7);
            p9 = (if truthy (optionalProp (propOf station ''fuel_prices'') ''unleaded'')
                  then p8\<lparr>petrol_price :=
                            parseFloat (optionalProp (propOf station ''fuel_prices'') ''unleaded'')\<rparr>
                  else p8)
        in if truthy (optionalProp (propOf station ''fuel_prices'') ''diesel'')
           then p9\<lparr>diesel_price :=
                     parseFloat (optionalProp (propOf station ''fuel_prices'') ''diesel'')\<rparr>
           else p9)
     else ps)"

text \<open>\<open>if (typeof p === 'string') p = parseFloat(p) || null\<close>, for each of the three prices.\<close>

definition parsePriceString :: "jsval \<Rightarrow> jsval" where
  "parsePriceString p = (if isString p then orElse (parseFloat p) Null else p)"

definition parsePriceStrings :: "jsval station \<Rightarrow> jsval station" where
  "parsePriceStrings ps =
    ps\<lparr> petrol_price := parsePriceString (petrol_price ps),
        diesel_price := parsePriceString (diesel_price ps),
        super_price := parsePriceString (super_price ps) \<rparr>"

text \<open>
  The body of the inner \<open>try\<close> up to the retention test: the station extracted from one
  raw record, or \<open>None\<close> when an exception is thrown on the way. The first read,
  \<open>station.location\<close>, throws when the record is \<open>undefined\<close> or \<open>null\<close>.
\<close>

definition extractStation :: "string \<Rightarrow> string \<Rightarrow> jsval \<Rightarrow> nat \<Rightarrow> jsval station option" where
  "extractStation now retailerName station index =
    (if nullish station then None
     else
       (case applyFuelTypeServices station
               (applyPrices station (initialStation now retailerName station index)) of
          None \<Rightarrow> None
        | Some ps \<Rightarrow> Some (parsePriceStrings (applyFallback station (applyFuelPrices station ps)))))"

text \<open>The retention test \<open>if (petrol_price || diesel_price || super_price)\<close>.\<close>

definition retained :: "jsval station \<Rightarrow> bool" where
  "retained ps = (truthy (petrol_price ps) \<or> truthy (diesel_price ps) \<or> truthy (super_price ps))"

text \<open>
  One round of the loop over the raw records, with its \<open>try\<close> and \<open>catch\<close>: a station is
  pushed when it is extracted and retained; an exception is logged and the record skipped.
  \<open>clock index\<close> is the reading of the clock, \<open>new Date().toISOString()\<close>, in the round of
  the record with that index.
\<close>

definition pushParsed ::
    "(nat \<Rightarrow> string) \<Rightarrow> string \<Rightarrow> jsval station list \<Rightarrow> nat \<times> jsval \<Rightarrow> jsval station list" where
  "pushParsed clock retailerName stations ir =
    (case extractStation (clock (fst ir)) retailerName (snd ir) (fst ir) of
       None \<Rightarrow> stations
     | Some ps \<Rightarrow> if retained ps then stations @ [ps] else stations)"

text \<open>The search for the array of records. The payload is neither \<open>undefined\<close> nor \<open>null\<close>
  here.\<close>

definition probedKeys :: "string list" where
  "probedKeys = [''stations'', ''data'', ''results'', ''fuel_prices'', ''items'', ''sites'',
                 ''locations'', ''stores'', ''forecourts'']"

definition ownKeys :: "jsval \<Rightarrow> string list" where
  "ownKeys v = (case v of Obj kvs \<Rightarrow> map fst kvs | _ \<Rightarrow> [])"

definition isNonEmptyArray :: "jsval \<Rightarrow> bool" where
  "isNonEmptyArray v = (case v of Arr xs \<Rightarrow> 0 < length xs | _ \<Rightarrow> False)"

definition firstArrayProperty :: "jsval \<Rightarrow> jsval" where
  "firstArrayProperty data =
    (case find (\<lambda>key. isNonEmptyArray (propOf data key)) (ownKeys data) of
       Some key \<Rightarrow> propOf data key
     | None \<Rightarrow> Arr [])"

definition stationArrayOf :: "jsval \<Rightarrow> jsval" where
  "stationArrayOf data =
    (case find (\<lambda>key. truthy (propOf data key)) probedKeys of
       Some key \<Rightarrow> propOf data key
     | None \<Rightarrow> if isArray data then data else firstArrayProperty data)"

text \<open>
  The body of the outer \<open>try\<close>: \<open>None\<close> when it throws, which it does on a payload that is
  \<open>undefined\<close> or \<open>null\<close> (the first read throws) and on a record list that is not an array
  (\<open>forEach\<close> is not a function). Nothing has been pushed at either point.
\<close>

definition parseStationDataBody ::
    "(nat \<Rightarrow> string) \<Rightarrow> jsval \<Rightarrow> string \<Rightarrow> jsval station list option" where
  "parseStationDataBody clock data retailerName =
    (if nullish data then None
     else
       (case stationArrayOf data of
          Arr records \<Rightarrow>
            Some (foldl (pushParsed clock retailerName) [] (zip [0 ..< length records] records))
        | _ \<Rightarrow> None))"

text \<open>\<open>parseStationData\<close>: the outer \<open>catch\<close> logs the exception, and the function returns
  the array \<open>stations\<close>.\<close>

definition parseStationData :: "(nat \<Rightarrow> string) \<Rightarrow> jsval \<Rightarrow> string \<Rightarrow> jsval station list" where
  "parseStationData clock data retailerName =
    (case parseStationDataBody clock data retailerName of None \<Rightarrow> [] | Some stations \<Rightarrow> stations)"

text \<open>The station that one raw record, paired with its index, adds to the result, if any:
  the record is extracted without an exception and passes the retention test.\<close>

definition keptStation :: "(nat \<Rightarrow> string) \<Rightarrow> string \<Rightarrow> nat \<times> jsval \<Rightarrow> jsval station option" where
  "keptStation clock retailerName ir =
    (case extractStation (clock (fst ir)) retailerName (snd ir) (fst ir) of
       None \<Rightarrow> None
     | Some ps \<Rightarrow> if retained ps then Some ps else None)"

section \<open>Filtering and sorting by distance\<close>




record location =
  loc_latitude :: real
  loc_longitude :: real






section \<open>Member prices on a station card\<close>



definition pumpDieselPPL :: "string station \<Rightarrow> jsval" where
  "pumpDieselPPL station =
    (if truthy (diesel_price station) then numTimes (parseFloat (diesel_price station)) 100 else Null)"




section \<open>Example data\<close>

text \<open>A clock that reads \<open>t\<close> in every round; a directory site and a live station with
  the same postcode; the same station placed at the coordinates of the site; a second site
  at that postcode and those coordinates under another brand; a site that sells neither
  petrol nor diesel; averages; a reference location and a station far from it; and a feed
  whose second record is \<open>null\<close> and whose third record carries a price of zero.\<close>

definition clockAt :: "string \<Rightarrow> nat \<Rightarrow> string" where
  "clockAt t k = t"

definition exampleSite :: site where
  "exampleSite =
    \<lparr> siteNo = 42, altSiteNo = 0, site_latitude = 515 / 10, site_longitude = - 1 / 10,
      siteName = ''TESCO EXTRA'', street1 = ''1 HIGH STREET'', site_town = ''LONDON'',
      postCode = ''SW1A 1AA'', site_brand = ''TESCO'', site_hours24 = True,
      site_hgvAccess = False, petrol = True, diesel = False, site_bands = ''A'' \<rparr>"

definition exampleStation :: "string \<Rightarrow> string station" where
  "exampleStation i =
    \<lparr> id' = i, brand = ''TESCO'', name = ''Tesco Station'', address = [],
      postcode = ''SW1A1AA'', town = [], latitude = 0, longitude = 0,
      petrol_price = Num (1459 / 1000), diesel_price = Null, super_price = Null,
      last_updated = ''2024-01-22T09:00:00.000Z'', is_open = Some True, facilities = Arr [],
      ukFuelsSiteNo = None, ukFuelsAltSiteNo = None, hasLivePricing = None, hours24 = None,
      hgvAccess = None, isUKFuelsSite = None, bands = None, distance = None \<rparr>"

definition exampleStationAtSite :: "string station" where
  "exampleStationAtSite =
    (exampleStation ''Tesco-1'')\<lparr> latitude := 515 / 10, longitude := - 1 / 10,
                                  town := ''LONDON'' \<rparr>"

definition exampleSiteBP :: site where
  "exampleSiteBP = exampleSite\<lparr> siteNo := 7, siteName := ''BP CONNECT'', site_brand := ''BP'' \<rparr>"

definition exampleSiteClosed :: site where
  "exampleSiteClosed =
    exampleSite\<lparr> siteNo := 9, postCode := ''M1 1AE'', site_town := ''MANCHESTER'',
                 petrol := False, diesel := False \<rparr>"

definition exampleAverages :: averages where
  "exampleAverages = \<lparr> avg_petrol = Str ''1.452'', avg_diesel = Str ''1.534'' \<rparr>"



definition exampleRecord :: jsval where
  "exampleRecord =
    Obj [(''site_id'', Str ''gcpvj0v07x''), (''brand'', Str ''TESCO''),
         (''postcode'', Str ''SW1A 1AA''),
         (''location'', Obj [(''latitude'', Num (515 / 10)), (''longitude'', Str ''-0.1'')]),
         (''prices'', Obj [(''E10'', Num (1459 / 10)), (''B7'', Num 0)])]"

definition zeroPriceRecord :: jsval where
  "zeroPriceRecord = Obj [(''brand'', Str ''TESCO''), (''prices'', Obj [(''E10'', Num 0)])]"

definition exampleFeed :: jsval where
  "exampleFeed =
    Obj [(''last_updated'', Str ''22/01/2024 10:00:00''),
         (''stations'', Arr [exampleRecord, Null, zeroPriceRecord,
                             Obj [(''unleaded_price'', Str ''1.5'')]])]"

section \<open>Supermarket classification\<close>

text \<open>
  C3. As stated, the claim says a brand is classified as a supermarket exactly when its
  upper-cased form is one of ASDA, TESCO, SAINSBURYS, MORRISONS. The list in the code has
  two more entries, the spellings with an apostrophe, so the brand \<open>Sainsbury's\<close> is a
  supermarket although its upper-cased form is outside the four-element set.
\<close>

theorem isSupermarketBrand_four_counterexample:
  "isSupermarketBrand (Some ''Sainsbury's'') \<and>
   toUpperCase ''Sainsbury's'' \<notin> {''ASDA'', ''TESCO'', ''SAINSBURYS'', ''MORRISONS''}"
  by (simp add: isSupermarketBrand_def supermarkets_def toUpperCase_def toUpperChar_def
      lowerLetters_def upperLetters_def)

text \<open>
  C3, amended. For every brand string, the brand is classified as a supermarket exactly
  when its upper-cased form is one of the six names ASDA, TESCO, SAINSBURYS, MORRISONS,
  SAINSBURY'S, MORRISON'S; every other brand is a standard site.
\<close>

theorem isSupermarketBrand_six:
  "isSupermarketBrand (Some b) \<longleftrightarrow>
   toUpperCase b \<in> {''ASDA'', ''TESCO'', ''SAINSBURYS'', ''MORRISONS'', ''SAINSBURY'S'', ''MORRISON'S''}"
  by (simp add: isSupermarketBrand_def supermarkets_def)

text \<open>C3, at two brands: \<open>Morrison's\<close> is a supermarket and \<open>Shell\<close> is not.\<close>

theorem isSupermarketBrand_six_witness:
  "isSupermarketBrand (Some ''Morrison's'') \<and> \<not> isSupermarketBrand (Some ''Shell'')"
proof -
  have "toUpperCase ''Morrison's'' = ''MORRISON'S''" "toUpperCase ''Shell'' = ''SHELL''"
    by (simp_all add: toUpperCase_def toUpperChar_def lowerLetters_def upperLetters_def)
  then show ?thesis
    using isSupermarketBrand_six[of "''Morrison's''"] isSupermarketBrand_six[of "''Shell''"]
    by simp
qed

section \<open>Properties of the matching engine\<close>

subsection \<open>The indices and the two loops\<close>

text \<open>The postcode index maps a non-empty key to the directory sites whose normalized
  postcode is that key, in directory order, and has no other entries.\<close>

lemma postcodeMap_indexSite:
  "ukFuelsPostcodeMap (indexSite idx s) =
    (if normalizeString (postCode s) \<noteq> []
     then pushTo (ukFuelsPostcodeMap idx) (normalizeString (postCode s)) s
     else ukFuelsPostcodeMap idx)"
  by (simp add: indexSite_def Let_def)

lemma postcodeMap_foldl:
  "ukFuelsPostcodeMap (foldl indexSite idx sites) k =
    (if k \<noteq> [] \<and> filter (\<lambda>s. normalizeString (postCode s) = k) sites \<noteq> []
     then Some ((case ukFuelsPostcodeMap idx k of None \<Rightarrow> [] | Some l \<Rightarrow> l)
                 @ filter (\<lambda>s. normalizeString (postCode s) = k) sites)
     else ukFuelsPostcodeMap idx k)"
proof (induction sites arbitrary: idx)
  case Nil
  show ?case by simp
next
  case (Cons s sites)
  show ?case
    by (simp add: Cons.IH postcodeMap_indexSite pushTo_def split: option.splits)
qed

lemma postcodeMap_buildIndex:
  "ukFuelsPostcodeMap (buildIndex sites) k =
    (if k \<noteq> [] \<and> filter (\<lambda>s. normalizeString (postCode s) = k) sites \<noteq> []
     then Some (filter (\<lambda>s. normalizeString (postCode s) = k) sites)
     else None)"
  by (simp add: buildIndex_def postcodeMap_foldl emptyIndex_def)

lemma postcodeMatch_entry:
  assumes "ukFuelsPostcodeMap (buildIndex sites) (normalizeString (postcode station)) = Some candidates"
  shows "candidates = filter (\<lambda>s. normalizeString (postCode s) = normalizeString (postcode station)) sites"
    and "candidates \<noteq> []"
    and "normalizeString (postcode station) \<noteq> []"
  using assms by (auto simp: postcodeMap_buildIndex split: if_splits)

text \<open>The first loop appends one merged record per matched live station, keeps the
  others in \<open>unmatched\<close>, and collects the site numbers; the second loop appends one
  synthesized record per site that is unclaimed and sells petrol or diesel.\<close>

lemma foldl_processStation_matched:
  "st_matched (foldl (processStation idx sites) st live) =
     st_matched st @ List.map_filter (liveEntry idx sites) live"
  by (induction live arbitrary: st)
     (auto simp: processStation_def liveEntry_def List.map_filter_simps split: option.splits)

lemma foldl_processStation_unmatched:
  "st_unmatched (foldl (processStation idx sites) st live) =
     st_unmatched st @ filter (\<lambda>s. findMatch idx sites s = None) live"
  by (induction live arbitrary: st)
     (auto simp: processStation_def split: option.splits)

lemma foldl_processStation_ids:
  "matchedUKFuelsSiteIds (foldl (processStation idx sites) st live) =
     matchedUKFuelsSiteIds st \<union> {n. \<exists>s \<in> set live. map_option siteNo (findMatch idx sites s) = Some n}"
  by (induction live arbitrary: st)
     (auto simp: processStation_def split: option.splits)

lemma foldl_processSite_ids:
  "matchedUKFuelsSiteIds (foldl (processSite avg) st tus) = matchedUKFuelsSiteIds st"
  by (induction tus arbitrary: st) (simp_all add: processSite_def Let_def)

lemma foldl_processSite_matched:
  "st_matched (foldl (processSite avg) st tus) =
     st_matched st @ map (\<lambda>tu. unmatchedUKSite (fst tu) avg (snd tu))
        (filter (\<lambda>tu. siteNo (snd tu) \<notin> matchedUKFuelsSiteIds st
                        \<and> (petrol (snd tu) \<or> diesel (snd tu))) tus)"
proof (induction tus arbitrary: st)
  case Nil
  show ?case by simp
next
  case (Cons tu tus)
  have ids: "matchedUKFuelsSiteIds (processSite avg st tu) = matchedUKFuelsSiteIds st"
    by (simp add: processSite_def Let_def)
  show ?case
    by (simp add: Cons.IH ids) (simp add: processSite_def Let_def)
qed

lemma foldl_processSite_unmatched:
  "st_unmatched (foldl (processSite avg) st tus) = st_unmatched st"
  by (induction tus arbitrary: st) (auto simp: processSite_def Let_def)

lemma timedSites_Cons:
  "timedSites clock (u # us) = (clock 0, u) # timedSites (\<lambda>k. clock (Suc k)) us"
proof -
  have "[0 ..< length (u # us)] = 0 # map Suc [0 ..< length us]"
    by (simp add: upt_conv_Cons map_Suc_upt del: upt_Suc)
  then show ?thesis
    by (simp add: timedSites_def comp_def del: upt_Suc)
qed

lemma timedSites_Nil: "timedSites clock [] = []"
  by (simp add: timedSites_def)

lemma snd_timedSites: "map snd (timedSites clock sites) = sites"
  by (simp add: timedSites_def)

lemma matched_eq:
  "matched (matchStationsWithUKFuels clock live sites avg) =
     List.map_filter (liveEntry (buildIndex sites) sites) live
     @ map (\<lambda>tu. unmatchedUKSite (fst tu) avg (snd tu))
         (filter (\<lambda>tu. siteNo (snd tu) \<notin> claimedSiteNos live sites
                         \<and> (petrol (snd tu) \<or> diesel (snd tu)))
                 (timedSites clock sites))"
  by (simp add: matchStationsWithUKFuels_def Let_def foldl_processSite_matched
      foldl_processStation_matched foldl_processStation_ids claimedSiteNos_def)

lemma unmatched_eq:
  "unmatched (matchStationsWithUKFuels clock live sites avg) =
     filter (\<lambda>s. findMatch (buildIndex sites) sites s = None) live"
  by (simp add: matchStationsWithUKFuels_def Let_def foldl_processSite_unmatched
      foldl_processStation_unmatched)

lemma liveEntry_hasLivePricing:
  "s \<in> set (List.map_filter (liveEntry idx sites) live) \<Longrightarrow> hasLivePricing s = Some True"
  by (auto simp: List.map_filter_def liveEntry_def mergedStation_def)

lemma liveCount_eq:
  "liveCount (matchStationsWithUKFuels clock live sites avg) =
     length (filter (\<lambda>s. findMatch (buildIndex sites) sites s \<noteq> None) live)"
proof -
  have a: "filter (\<lambda>s. hasLivePricing s = Some True) (List.map_filter (liveEntry idx sites) live)
           = List.map_filter (liveEntry idx sites) live" for idx
    by (rule filter_True) (simp add: liveEntry_hasLivePricing)
  have b: "filter (\<lambda>s. hasLivePricing s = Some True)
             (map (\<lambda>tu. unmatchedUKSite (fst tu) avg (snd tu)) tus) = []" for tus
    by (induction tus) (simp_all add: unmatchedUKSite_def)
  have c: "length (List.map_filter (liveEntry idx sites) live)
           = length (filter (\<lambda>s. findMatch idx sites s \<noteq> None) live)" for idx
    by (induction live) (auto simp: List.map_filter_simps liveEntry_def split: option.splits)
  have "liveCount (matchStationsWithUKFuels clock live sites avg) =
        length (filter (\<lambda>s. hasLivePricing s = Some True)
                  (matched (matchStationsWithUKFuels clock live sites avg)))"
    by (simp add: matchStationsWithUKFuels_def Let_def)
  then show ?thesis
    by (simp add: matched_eq a b c)
qed

lemma synthesized_not_live:
  "filter (\<lambda>s. hasLivePricing s \<noteq> Some True) (List.map_filter (liveEntry idx sites) live) = []"
  by (simp add: filter_empty_conv liveEntry_hasLivePricing)

lemma synthesized_all:
  "filter (\<lambda>s. hasLivePricing s \<noteq> Some True) (map (\<lambda>tu. unmatchedUKSite (fst tu) avg (snd tu)) tus)
     = map (\<lambda>tu. unmatchedUKSite (fst tu) avg (snd tu)) tus"
  by (induction tus) (simp_all add: unmatchedUKSite_def)

lemma erased_synthesized:
  "map (\<lambda>tu. eraseStamp (unmatchedUKSite (fst tu) avg (snd tu)))
       (filter (\<lambda>tu. P (snd tu)) (timedSites clock sites))
   = map (\<lambda>u. eraseStamp (unmatchedUKSite [] avg u)) (filter P sites)"
proof (induction sites arbitrary: clock)
  case Nil
  show ?case by (simp add: timedSites_Nil)
next
  case (Cons u us)
  have e: "eraseStamp (unmatchedUKSite (clock 0) avg u) = eraseStamp (unmatchedUKSite [] avg u)"
    by (simp add: eraseStamp_def unmatchedUKSite_def)
  show ?case
    by (simp add: timedSites_Cons Cons.IH e)
qed

subsection \<open>Evaluation on the example data\<close>

lemmas normalize_eval =
  normalizeString_def toUpperCase_def toUpperChar_def lowerLetters_def upperLetters_def
  trim_def isWhiteSpace_def isUpperAlnum_def isDigit_def decimalDigits_def

lemma normalize_example_postcodes:
  "normalizeString ''SW1A 1AA'' = ''SW1A1AA''" "normalizeString ''SW1A1AA'' = ''SW1A1AA''"
  "normalizeString ''TESCO'' = ''TESCO''"
  by (simp_all add: normalize_eval)

lemma normalize_example_brands: "normalizeString ''BP'' = ''BP''" "normalizeString ''M1 1AE'' = ''M11AE''"
  by (simp_all add: normalize_eval)

lemma findMatch_example:
  "findMatch (buildIndex [exampleSite]) [exampleSite] (exampleStation i) = Some exampleSite"
  by (simp add: findMatch_def postcodeMatch_def postcodeMap_buildIndex exampleSite_def
      exampleStation_def normalize_example_postcodes first_def Let_def)

subsection \<open>Postcode priority\<close>

lemma findMatch_by_postcode:
  assumes "ukFuelsPostcodeMap (buildIndex sites) (normalizeString (postcode station)) = Some candidates"
  shows "findMatch (buildIndex sites) sites station =
           Some (if length candidates = 1 then hd candidates
                 else (case find (\<lambda>c. normalizeString (site_brand c) = normalizeString (brand station)) candidates of
                         Some c \<Rightarrow> c
                       | None \<Rightarrow> hd candidates))"
proof -
  note e = postcodeMatch_entry[OF assms]
  let ?c = "if length candidates = 1 then hd candidates
            else (case find (\<lambda>c. normalizeString (site_brand c) = normalizeString (brand station)) candidates of
                    Some c \<Rightarrow> c | None \<Rightarrow> hd candidates)"
  have f: "first candidates = Some (hd candidates)"
    using e(2) by (cases candidates) (simp_all add: first_def)
  have pm: "postcodeMatch (buildIndex sites) station = Some ?c"
    using assms e(3) by (simp add: postcodeMatch_def Let_def f split: option.splits)
  show ?thesis
    unfolding findMatch_def Let_def pm by simp
qed

text \<open>
  C6. For a live station whose normalized postcode has an entry in the postcode index, the
  entry is the non-empty list of the directory sites with that normalized postcode, and
  the match is decided from this list and the brand alone: the only candidate when there
  is exactly one, otherwise the first candidate whose normalized brand equals the station's
  normalized brand, otherwise the first candidate. The coordinates and the town of the
  station, which the proximity and the brand and town strategies read, have no part in it:
  changing them leaves the match as it is. The merged record of that site and the station
  is in the matched output.
\<close>

theorem postcode_match_takes_priority:
  assumes "ukFuelsPostcodeMap (buildIndex sites) (normalizeString (postcode station)) = Some candidates"
  shows "candidates = filter (\<lambda>s. normalizeString (postCode s) = normalizeString (postcode station)) sites \<and>
         candidates \<noteq> [] \<and>
         findMatch (buildIndex sites) sites station =
           Some (if length candidates = 1 then hd candidates
                 else (case find (\<lambda>c. normalizeString (site_brand c) = normalizeString (brand station)) candidates of
                         Some c \<Rightarrow> c
                       | None \<Rightarrow> hd candidates)) \<and>
         findMatch (buildIndex sites) sites (station\<lparr>latitude := la, longitude := lo, town := tw\<rparr>)
           = findMatch (buildIndex sites) sites station \<and>
         (station \<in> set live \<longrightarrow>
            mergedStation
              (if length candidates = 1 then hd candidates
               else (case find (\<lambda>c. normalizeString (site_brand c) = normalizeString (brand station)) candidates of
                       Some c \<Rightarrow> c
                     | None \<Rightarrow> hd candidates)) station
            \<in> set (matched (matchStationsWithUKFuels clock live sites avg)))"
proof -
  note e = postcodeMatch_entry[OF assms]
  let ?c = "if length candidates = 1 then hd candidates
            else (case find (\<lambda>c. normalizeString (site_brand c) = normalizeString (brand station)) candidates of
                    Some c \<Rightarrow> c | None \<Rightarrow> hd candidates)"
  have fm: "findMatch (buildIndex sites) sites station = Some ?c"
    by (rule findMatch_by_postcode[OF assms])
  have "ukFuelsPostcodeMap (buildIndex sites)
          (normalizeString (postcode (station\<lparr>latitude := la, longitude := lo, town := tw\<rparr>)))
        = Some candidates"
    using assms by simp
  from findMatch_by_postcode[OF this]
  have mv: "findMatch (buildIndex sites) sites (station\<lparr>latitude := la, longitude := lo, town := tw\<rparr>)
            = findMatch (buildIndex sites) sites station"
    unfolding fm by simp
  have "station \<in> set live \<Longrightarrow>
        mergedStation ?c station \<in> set (matched (matchStationsWithUKFuels clock live sites avg))"
  proof -
    assume "station \<in> set live"
    then have "mergedStation ?c station \<in> set (List.map_filter (liveEntry (buildIndex sites) sites) live)"
      unfolding List.map_filter_def liveEntry_def using fm by force
    then show ?thesis by (simp add: matched_eq)
  qed
  with e(1,2) fm mv show ?thesis by blast
qed

text \<open>C6, at a TESCO station whose postcode is shared by a BP site and a TESCO site, in
  that order, and whose coordinates are those of the BP site: the index entry holds both
  sites, and the TESCO site, the second candidate, is taken.\<close>

theorem postcode_match_takes_priority_witness:
  "ukFuelsPostcodeMap (buildIndex [exampleSiteBP, exampleSite])
      (normalizeString (postcode exampleStationAtSite)) = Some [exampleSiteBP, exampleSite] \<and>
   latitude exampleStationAtSite = site_latitude exampleSiteBP \<and>
   longitude exampleStationAtSite = site_longitude exampleSiteBP \<and>
   findMatch (buildIndex [exampleSiteBP, exampleSite]) [exampleSiteBP, exampleSite]
      exampleStationAtSite = Some exampleSite \<and>
   mergedStation exampleSite exampleStationAtSite
     \<in> set (matched (matchStationsWithUKFuels (clockAt []) [exampleStationAtSite]
                       [exampleSiteBP, exampleSite] None))"
proof -
  have h: "ukFuelsPostcodeMap (buildIndex [exampleSiteBP, exampleSite])
      (normalizeString (postcode exampleStationAtSite)) = Some [exampleSiteBP, exampleSite]"
    by (simp add: postcodeMap_buildIndex exampleSiteBP_def exampleSite_def exampleStation_def
        exampleStationAtSite_def normalize_example_postcodes)
  have xy: "latitude exampleStationAtSite = site_latitude exampleSiteBP"
           "longitude exampleStationAtSite = site_longitude exampleSiteBP"
    by (simp_all add: exampleStationAtSite_def exampleSiteBP_def exampleSite_def)
  let ?pick = "if length [exampleSiteBP, exampleSite] = 1 then hd [exampleSiteBP, exampleSite]
               else (case find (\<lambda>c. normalizeString (site_brand c)
                                      = normalizeString (brand exampleStationAtSite))
                           [exampleSiteBP, exampleSite] of
                       Some c \<Rightarrow> c
                     | None \<Rightarrow> hd [exampleSiteBP, exampleSite])"
  have b: "normalizeString (brand exampleStationAtSite) = ''TESCO''"
          "normalizeString (site_brand exampleSiteBP) = ''BP''"
          "normalizeString (site_brand exampleSite) = ''TESCO''"
    by (simp_all add: exampleStation_def exampleStationAtSite_def exampleSiteBP_def exampleSite_def
        normalize_example_brands normalize_example_postcodes)
  have pick: "?pick = exampleSite"
    by (simp add: b)
  note t = postcode_match_takes_priority[OF h, where live = "[exampleStationAtSite]"
             and clock = "clockAt []" and avg = None]
  have fm: "findMatch (buildIndex [exampleSiteBP, exampleSite]) [exampleSiteBP, exampleSite]
              exampleStationAtSite = Some ?pick"
    by (rule t[THEN conjunct2, THEN conjunct2, THEN conjunct1])
  have "exampleStationAtSite \<in> set [exampleStationAtSite]"
    by simp
  then have mem: "mergedStation ?pick exampleStationAtSite
     \<in> set (matched (matchStationsWithUKFuels (clockAt []) [exampleStationAtSite]
                       [exampleSiteBP, exampleSite] None))"
    by (rule mp[OF t[THEN conjunct2, THEN conjunct2, THEN conjunct2, THEN conjunct2]])
  show ?thesis
    using h xy fm mem unfolding pick by (intro conjI)
qed

subsection \<open>Two live stations, one site\<close>

text \<open>
  C7. There are a directory with one site and two distinct live stations that each match
  it, for which the matched output is two records with live pricing that carry the same
  site number, the number of that site.
\<close>

theorem two_stations_claim_one_site:
  "\<exists>s1 s2 u clock avg m1 m2.
     s1 \<noteq> s2 \<and>
     findMatch (buildIndex [u]) [u] s1 = Some u \<and>
     findMatch (buildIndex [u]) [u] s2 = Some u \<and>
     matched (matchStationsWithUKFuels clock [s1, s2] [u] avg) = [m1, m2] \<and>
     hasLivePricing m1 = Some True \<and> hasLivePricing m2 = Some True \<and>
     ukFuelsSiteNo m1 = Some (siteNo u) \<and> ukFuelsSiteNo m2 = Some (siteNo u)"
proof -
  let ?s1 = "exampleStation ''Tesco-1''" and ?s2 = "exampleStation ''Tesco-2''"
  have ne: "?s1 \<noteq> ?s2"
    by (simp add: exampleStation_def)
  have c: "siteNo exampleSite \<in> claimedSiteNos [?s1, ?s2] [exampleSite]"
    by (simp add: claimedSiteNos_def findMatch_example)
  have m: "matched (matchStationsWithUKFuels (clockAt []) [?s1, ?s2] [exampleSite] None)
           = [mergedStation exampleSite ?s1, mergedStation exampleSite ?s2]"
    by (simp add: matched_eq List.map_filter_simps liveEntry_def findMatch_example
        timedSites_def c)
  show ?thesis
    apply (rule exI[of _ ?s1], rule exI[of _ ?s2], rule exI[of _ exampleSite])
    apply (rule exI[of _ "clockAt []"], rule exI[of _ None])
    apply (rule exI[of _ "mergedStation exampleSite ?s1"])
    apply (rule exI[of _ "mergedStation exampleSite ?s2"])
    using ne m by (simp add: mergedStation_def findMatch_example)
qed

subsection \<open>Synthesized records\<close>

text \<open>
  C5. In the matched output the records without live pricing are exactly the records
  synthesized, in directory order, for the sites whose number is not claimed by a
  live-station match and whose petrol or diesel flag is true. A synthesized record has
  \<open>hasLivePricing = false\<close> and the number of its site; its petrol and diesel prices are
  the supplied averages (\<open>null\<close> for an average that is falsy: absent, empty or zero). With
  distinct site numbers in the directory, a site that is unclaimed has a synthesized record
  in the output if and only if its petrol or diesel flag is true, and a site with both flags
  false has none.
\<close>

theorem unclaimed_sites_synthesized:
  assumes "distinct (map siteNo sites)" and "u \<in> set sites"
  shows "filter (\<lambda>s. hasLivePricing s \<noteq> Some True)
                (matched (matchStationsWithUKFuels clock live sites avg))
           = map (\<lambda>tu. unmatchedUKSite (fst tu) avg (snd tu))
               (filter (\<lambda>tu. siteNo (snd tu) \<notin> claimedSiteNos live sites
                               \<and> (petrol (snd tu) \<or> diesel (snd tu)))
                       (timedSites clock sites)) \<and>
         hasLivePricing (unmatchedUKSite now avg u) = Some False \<and>
         ukFuelsSiteNo (unmatchedUKSite now avg u) = Some (siteNo u) \<and>
         petrol_price (unmatchedUKSite now (Some a) u)
           = (if truthy (avg_petrol a) then avg_petrol a else Null) \<and>
         diesel_price (unmatchedUKSite now (Some a) u)
           = (if truthy (avg_diesel a) then avg_diesel a else Null) \<and>
         (siteNo u \<notin> claimedSiteNos live sites \<longrightarrow>
            ((\<exists>s \<in> set (matched (matchStationsWithUKFuels clock live sites avg)).
                 hasLivePricing s = Some False \<and> ukFuelsSiteNo s = Some (siteNo u))
             \<longleftrightarrow> petrol u \<or> diesel u)) \<and>
         (\<not> petrol u \<and> \<not> diesel u \<longrightarrow>
            (\<forall>s \<in> set (matched (matchStationsWithUKFuels clock live sites avg)).
                 hasLivePricing s = Some False \<longrightarrow> ukFuelsSiteNo s \<noteq> Some (siteNo u)))"
proof -
  let ?M = "matched (matchStationsWithUKFuels clock live sites avg)"
  let ?ok = "\<lambda>v. siteNo v \<notin> claimedSiteNos live sites \<and> (petrol v \<or> diesel v)"
  let ?U = "filter (\<lambda>tu. ?ok (snd tu)) (timedSites clock sites)"
  let ?syn = "\<lambda>tu. unmatchedUKSite (fst tu) avg (snd tu)"
  have l: "filter (\<lambda>s. hasLivePricing s \<noteq> Some True) ?M = map ?syn ?U"
    by (simp add: matched_eq synthesized_not_live synthesized_all)
  have inj: "v \<in> set sites \<Longrightarrow> siteNo v = siteNo u \<Longrightarrow> v = u" for v
    using assms by (meson distinct_map inj_onD)
  have timed: "tu \<in> set (timedSites clock sites) \<Longrightarrow> snd tu \<in> set sites" for tu
    using snd_timedSites[of clock sites] by (metis imageI set_map)
  have syn: "(\<exists>s \<in> set ?M. hasLivePricing s = Some False \<and> ukFuelsSiteNo s = Some (siteNo u))
             \<longleftrightarrow> ?ok u"
  proof
    assume "\<exists>s \<in> set ?M. hasLivePricing s = Some False \<and> ukFuelsSiteNo s = Some (siteNo u)"
    then obtain s where s: "s \<in> set ?M" "hasLivePricing s = Some False"
        "ukFuelsSiteNo s = Some (siteNo u)" by blast
    then have "s \<in> set (filter (\<lambda>s. hasLivePricing s \<noteq> Some True) ?M)" by simp
    then obtain tu where tu: "tu \<in> set ?U" "s = ?syn tu"
      unfolding l by auto
    then have "siteNo (snd tu) = siteNo u" using s(3) by (simp add: unmatchedUKSite_def)
    moreover have "snd tu \<in> set sites" using tu(1) timed by simp
    ultimately have "snd tu = u" using inj by simp
    then show "?ok u" using tu(1) by auto
  next
    assume ok: "?ok u"
    from assms(2) have "u \<in> set (map snd (timedSites clock sites))"
      by (simp only: snd_timedSites)
    then obtain tu where tu: "tu \<in> set (timedSites clock sites)" "snd tu = u"
      by auto
    with ok have "tu \<in> set ?U" by simp
    then have "?syn tu \<in> set (filter (\<lambda>s. hasLivePricing s \<noteq> Some True) ?M)"
      unfolding l by simp
    then have "?syn tu \<in> set ?M" by simp
    then show "\<exists>s \<in> set ?M. hasLivePricing s = Some False \<and> ukFuelsSiteNo s = Some (siteNo u)"
      by (rule bexI[rotated]) (simp add: unmatchedUKSite_def tu(2))
  qed
  have p: "petrol_price (unmatchedUKSite now (Some a) u) = (if truthy (avg_petrol a) then avg_petrol a else Null)"
       "diesel_price (unmatchedUKSite now (Some a) u) = (if truthy (avg_diesel a) then avg_diesel a else Null)"
       "hasLivePricing (unmatchedUKSite now avg u) = Some False"
       "ukFuelsSiteNo (unmatchedUKSite now avg u) = Some (siteNo u)"
    by (simp_all add: unmatchedUKSite_def averageOrNull_def orElse_def)
  show ?thesis
    using l p syn by auto
qed

text \<open>C5, at a directory of a TESCO site that sells petrol and a site with both flags
  false, with no live station: the output is the one record synthesized for the first
  site, priced at the supplied averages.\<close>

theorem unclaimed_sites_synthesized_witness:
  "distinct (map siteNo [exampleSite, exampleSiteClosed]) \<and>
   exampleSiteClosed \<in> set [exampleSite, exampleSiteClosed] \<and>
   siteNo exampleSiteClosed \<notin> claimedSiteNos [] [exampleSite, exampleSiteClosed] \<and>
   \<not> petrol exampleSiteClosed \<and> \<not> diesel exampleSiteClosed \<and>
   matched (matchStationsWithUKFuels (clockAt []) [] [exampleSite, exampleSiteClosed] (Some exampleAverages))
     = [unmatchedUKSite [] (Some exampleAverages) exampleSite] \<and>
   petrol_price (unmatchedUKSite [] (Some exampleAverages) exampleSiteClosed) = Str ''1.452'' \<and>
   \<not> (\<exists>s \<in> set (matched (matchStationsWithUKFuels (clockAt []) [] [exampleSite, exampleSiteClosed]
                            (Some exampleAverages))).
          hasLivePricing s = Some False \<and> ukFuelsSiteNo s = Some (siteNo exampleSiteClosed))"
proof -
  have d: "distinct (map siteNo [exampleSite, exampleSiteClosed])"
    by (simp add: exampleSite_def exampleSiteClosed_def)
  have m: "exampleSiteClosed \<in> set [exampleSite, exampleSiteClosed]" by simp
  have c: "claimedSiteNos [] [exampleSite, exampleSiteClosed] = {}"
    by (simp add: claimedSiteNos_def)
  have f: "\<not> petrol exampleSiteClosed" "\<not> diesel exampleSiteClosed" "petrol exampleSite"
    by (simp_all add: exampleSite_def exampleSiteClosed_def)
  have l: "matched (matchStationsWithUKFuels (clockAt []) [] [exampleSite, exampleSiteClosed] (Some exampleAverages))
     = [unmatchedUKSite [] (Some exampleAverages) exampleSite]"
    by (simp add: matched_eq c f List.map_filter_simps timedSites_def clockAt_def)
  note t = unclaimed_sites_synthesized[OF d m, where clock = "clockAt []" and live = "[]"
             and avg = "Some exampleAverages" and now = "[]" and a = exampleAverages]
  have u: "siteNo exampleSiteClosed \<notin> claimedSiteNos [] [exampleSite, exampleSiteClosed]"
    by (simp add: c)
  have p: "petrol_price (unmatchedUKSite [] (Some exampleAverages) exampleSiteClosed) = Str ''1.452''"
    using t[THEN conjunct2, THEN conjunct2, THEN conjunct2, THEN conjunct1]
    by (simp add: exampleAverages_def)
  have "(\<exists>s \<in> set (matched (matchStationsWithUKFuels (clockAt []) [] [exampleSite, exampleSiteClosed]
                            (Some exampleAverages))).
          hasLivePricing s = Some False \<and> ukFuelsSiteNo s = Some (siteNo exampleSiteClosed))
        \<longleftrightarrow> petrol exampleSiteClosed \<or> diesel exampleSiteClosed"
    by (rule mp[OF t[THEN conjunct2, THEN conjunct2, THEN conjunct2, THEN conjunct2,
                     THEN conjunct2, THEN conjunct1] u])
  then have n: "\<not> (\<exists>s \<in> set (matched (matchStationsWithUKFuels (clockAt []) [] [exampleSite, exampleSiteClosed]
                            (Some exampleAverages))).
          hasLivePricing s = Some False \<and> ukFuelsSiteNo s = Some (siteNo exampleSiteClosed))"
    using f(1,2) by simp
  show ?thesis
    by (intro conjI) (rule d m u f l p n)+
qed

subsection \<open>Repeated runs\<close>

text \<open>
  C2. As stated, the claim says two runs on the same live stations, directory and averages
  give identical matched lists. A synthesized record is stamped with the time at which it
  is built, so two runs one second apart on a directory of one unclaimed site give
  different matched lists.
\<close>

theorem matching_clock_counterexample:
  "matched (matchStationsWithUKFuels (clockAt ''2024-01-22T10:00:00.000Z'') [] [exampleSite] None)
   \<noteq> matched (matchStationsWithUKFuels (clockAt ''2024-01-22T10:00:01.000Z'') [] [exampleSite] None)"
  by (simp add: matched_eq claimedSiteNos_def exampleSite_def unmatchedUKSite_def timedSites_def
      clockAt_def)

text \<open>
  C2, amended. For every live-station list, directory list and averages, two runs of the
  matching engine, whatever the clock reads during each, give identical unmatched lists and
  identical \<open>liveCount\<close>, and matched lists that are identical up to the \<open>last_updated\<close>
  stamp of the synthesized records.
\<close>

theorem matching_deterministic_up_to_clock:
  "unmatched (matchStationsWithUKFuels clock live sites avg)
     = unmatched (matchStationsWithUKFuels clock' live sites avg) \<and>
   liveCount (matchStationsWithUKFuels clock live sites avg)
     = liveCount (matchStationsWithUKFuels clock' live sites avg) \<and>
   map eraseStamp (matched (matchStationsWithUKFuels clock live sites avg))
     = map eraseStamp (matched (matchStationsWithUKFuels clock' live sites avg))"
proof -
  let ?P = "\<lambda>u. siteNo u \<notin> claimedSiteNos live sites \<and> (petrol u \<or> diesel u)"
  have "map eraseStamp (matched (matchStationsWithUKFuels c live sites avg))
        = map eraseStamp (List.map_filter (liveEntry (buildIndex sites) sites) live)
          @ map (\<lambda>u. eraseStamp (unmatchedUKSite [] avg u)) (filter ?P sites)" for c
    unfolding matched_eq map_append map_map comp_def erased_synthesized[where P = ?P] ..
  then have "map eraseStamp (matched (matchStationsWithUKFuels clock live sites avg))
             = map eraseStamp (matched (matchStationsWithUKFuels clock' live sites avg))"
    by simp
  then show ?thesis
    by (simp add: unmatched_eq liveCount_eq)
qed

text \<open>C2, amended, at two runs one second apart on one live station and two sites.\<close>

theorem matching_deterministic_up_to_clock_witness:
  "map eraseStamp (matched (matchStationsWithUKFuels (clockAt ''2024-01-22T10:00:00.000Z'')
                              [exampleStation ''Tesco-1''] [exampleSite, exampleSiteClosed] None))
   = map eraseStamp (matched (matchStationsWithUKFuels (clockAt ''2024-01-22T10:00:01.000Z'')
                                [exampleStation ''Tesco-1''] [exampleSite, exampleSiteClosed] None))"
  using matching_deterministic_up_to_clock[where clock = "clockAt ''2024-01-22T10:00:00.000Z''"
          and clock' = "clockAt ''2024-01-22T10:00:01.000Z''"
          and live = "[exampleStation ''Tesco-1'']"
          and sites = "[exampleSite, exampleSiteClosed]" and avg = None]
  by (rule conjunct2[THEN conjunct2])

section \<open>Properties of the feed normalizer\<close>

lemma pushParsed_keptStation:
  "pushParsed clock retailerName stations ir =
     stations @ (case keptStation clock retailerName ir of None \<Rightarrow> [] | Some ps \<Rightarrow> [ps])"
  by (simp add: pushParsed_def keptStation_def split: option.splits)

lemma foldl_pushParsed:
  "foldl (pushParsed clock retailerName) stations irs =
     stations @ List.map_filter (keptStation clock retailerName) irs"
  by (induction irs arbitrary: stations)
     (simp_all add: pushParsed_keptStation List.map_filter_simps split: option.splits)

lemma parseStationData_records:
  assumes "\<not> nullish data" and "stationArrayOf data = Arr records"
  shows "parseStationData clock data retailerName =
           List.map_filter (keptStation clock retailerName) (zip [0 ..< length records] records)"
  using assms by (simp add: parseStationData_def parseStationDataBody_def foldl_pushParsed)

lemma parseStationData_cases:
  "parseStationData clock data retailerName = [] \<or>
   (\<exists>records. \<not> nullish data \<and> stationArrayOf data = Arr records \<and>
      parseStationData clock data retailerName =
        List.map_filter (keptStation clock retailerName) (zip [0 ..< length records] records))"
proof (cases "nullish data")
  case True
  then show ?thesis by (simp add: parseStationData_def parseStationDataBody_def)
next
  case False
  show ?thesis
  proof (cases "stationArrayOf data")
    case (Arr records)
    with False show ?thesis using parseStationData_records by blast
  qed (simp_all add: parseStationData_def parseStationDataBody_def False)
qed

lemma parseStationData_member:
  assumes "ps \<in> set (parseStationData clock data retailerName)"
  shows "\<exists>station index. extractStation (clock index) retailerName station index = Some ps \<and> retained ps"
proof -
  from assms parseStationData_cases[of clock data retailerName]
  obtain records where "ps \<in> set (List.map_filter (keptStation clock retailerName)
                                      (zip [0 ..< length records] records))"
    by auto
  then obtain ir where "keptStation clock retailerName ir = Some ps"
    by (auto simp: List.map_filter_def)
  then show ?thesis
    by (auto simp: keptStation_def split: option.splits if_splits)
qed

lemma truthy_not_Null: "truthy v \<Longrightarrow> v \<noteq> Null"
  by auto

lemma zip_upt_append_Cons:
  "zip [0 ..< length (xs @ y # ys)] (xs @ y # ys) =
     zip [0 ..< length xs] xs
     @ (length xs, y) # zip [Suc (length xs) ..< Suc (length xs + length ys)] ys"
proof -
  let ?n = "length xs" and ?m = "length ys"
  have "[0 ..< ?n + Suc ?m] = [0 ..< ?n] @ [?n ..< ?n + Suc ?m]"
    by (rule upt_add_eq_append) simp
  then have "[0 ..< Suc (?n + ?m)] = [0 ..< ?n] @ [?n ..< Suc (?n + ?m)]"
    by (simp only: add_Suc_right)
  moreover have "[?n ..< Suc (?n + ?m)] = ?n # [Suc ?n ..< Suc (?n + ?m)]"
    by (rule upt_conv_Cons) simp
  moreover have "length (xs @ y # ys) = Suc (?n + ?m)"
    by simp
  ultimately have "[0 ..< length (xs @ y # ys)] = [0 ..< ?n] @ ?n # [Suc ?n ..< Suc (?n + ?m)]"
    by (simp only:)
  then show ?thesis by (simp only: zip_append2) simp
qed

text \<open>
  C4. Every station in the list the normalizer returns has a petrol, diesel or super price
  that is not \<open>null\<close>; and a record whose three extracted prices are all \<open>null\<close> is not
  retained: it adds nothing to the list.
\<close>

theorem retained_station_has_price:
  "(\<forall>ps \<in> set (parseStationData clock data retailerName).
      petrol_price ps \<noteq> Null \<or> diesel_price ps \<noteq> Null \<or> super_price ps \<noteq> Null) \<and>
   (extractStation (clock index) retailerName station index = Some ps \<and>
    petrol_price ps = Null \<and> diesel_price ps = Null \<and> super_price ps = Null
      \<longrightarrow> keptStation clock retailerName (index, station) = None \<and>
          pushParsed clock retailerName stations (index, station) = stations)"
proof -
  have "petrol_price ps \<noteq> Null \<or> diesel_price ps \<noteq> Null \<or> super_price ps \<noteq> Null"
    if "ps \<in> set (parseStationData clock data retailerName)" for ps
  proof -
    from parseStationData_member[OF that] have "retained ps" by blast
    then show ?thesis unfolding retained_def using truthy_not_Null by blast
  qed
  moreover have "keptStation clock retailerName (index, station) = None \<and>
                 pushParsed clock retailerName stations (index, station) = stations"
    if "extractStation (clock index) retailerName station index = Some ps"
       "petrol_price ps = Null" "diesel_price ps = Null" "super_price ps = Null"
    using that by (simp add: keptStation_def pushParsed_def retained_def)
  ultimately show ?thesis by blast
qed

text \<open>C4, at the example feed, whose result is not empty, and at the empty record, whose
  three extracted prices are \<open>null\<close>.\<close>

theorem retained_station_has_price_witness:
  "hd (parseStationData (clockAt []) exampleFeed ''Tesco'') \<in> set (parseStationData (clockAt []) exampleFeed ''Tesco'') \<and>
   \<not> (petrol_price (hd (parseStationData (clockAt []) exampleFeed ''Tesco'')) = Null \<and>
      diesel_price (hd (parseStationData (clockAt []) exampleFeed ''Tesco'')) = Null \<and>
      super_price (hd (parseStationData (clockAt []) exampleFeed ''Tesco'')) = Null) \<and>
   extractStation [] ''Tesco'' (Obj []) 0 = Some (initialStation [] ''Tesco'' (Obj []) 0) \<and>
   petrol_price (initialStation [] ''Tesco'' (Obj []) 0) = Null \<and>
   diesel_price (initialStation [] ''Tesco'' (Obj []) 0) = Null \<and>
   super_price (initialStation [] ''Tesco'' (Obj []) 0) = Null \<and>
   keptStation (clockAt []) ''Tesco'' (0, Obj []) = None"
proof -
  let ?L = "parseStationData (clockAt []) exampleFeed ''Tesco''"
  have "?L \<noteq> []"
    by code_simp
  then have n: "hd ?L \<in> set ?L"
    by (rule hd_in_set)
  have e: "extractStation [] ''Tesco'' (Obj []) 0 = Some (initialStation [] ''Tesco'' (Obj []) 0)"
    by code_simp
  have p: "petrol_price (initialStation [] ''Tesco'' (Obj []) 0) = Null"
          "diesel_price (initialStation [] ''Tesco'' (Obj []) 0) = Null"
          "super_price (initialStation [] ''Tesco'' (Obj []) 0) = Null"
    by (simp_all add: initialStation_def)
  have e': "extractStation (clockAt [] 0) ''Tesco'' (Obj []) 0
            = Some (initialStation [] ''Tesco'' (Obj []) 0)"
    using e by (simp add: clockAt_def)
  note t = retained_station_has_price[where clock = "clockAt []" and data = exampleFeed
             and retailerName = "''Tesco''" and station = "Obj []" and index = 0
             and ps = "initialStation [] ''Tesco'' (Obj []) 0" and stations = "[]"]
  have "petrol_price (hd ?L) \<noteq> Null \<or> diesel_price (hd ?L) \<noteq> Null \<or> super_price (hd ?L) \<noteq> Null"
    by (rule bspec[OF t[THEN conjunct1] n])
  then have q: "\<not> (petrol_price (hd ?L) = Null \<and> diesel_price (hd ?L) = Null \<and> super_price (hd ?L) = Null)"
    by blast
  have k: "keptStation (clockAt []) ''Tesco'' (0, Obj []) = None"
    by (rule conjunct1[OF mp[OF t[THEN conjunct2] conjI[OF e' conjI[OF p(1) conjI[OF p(2) p(3)]]]]])
  show ?thesis
    by (intro conjI) (rule n q e p k)+
qed

text \<open>
  C10. The retention test is truthiness: a record whose extracted prices are each \<open>null\<close>
  or the number 0 is discarded, exactly as a record whose prices are all \<open>null\<close>; every
  station in the result has a truthy price.
\<close>

theorem zero_price_discarded:
  "(extractStation (clock index) retailerName station index = Some ps \<and>
    petrol_price ps \<in> {Null, Num 0} \<and> diesel_price ps \<in> {Null, Num 0} \<and>
    super_price ps \<in> {Null, Num 0}
      \<longrightarrow> keptStation clock retailerName (index, station) = None \<and>
          pushParsed clock retailerName stations (index, station) = stations) \<and>
   (\<forall>ps \<in> set (parseStationData clock data retailerName).
      truthy (petrol_price ps) \<or> truthy (diesel_price ps) \<or> truthy (super_price ps))"
proof -
  have "keptStation clock retailerName (index, station) = None \<and>
        pushParsed clock retailerName stations (index, station) = stations"
    if "extractStation (clock index) retailerName station index = Some ps"
       "petrol_price ps \<in> {Null, Num 0}" "diesel_price ps \<in> {Null, Num 0}"
       "super_price ps \<in> {Null, Num 0}"
    using that by (auto simp: keptStation_def pushParsed_def retained_def)
  moreover have "truthy (petrol_price ps) \<or> truthy (diesel_price ps) \<or> truthy (super_price ps)"
    if "ps \<in> set (parseStationData clock data retailerName)" for ps
    using parseStationData_member[OF that] by (auto simp: retained_def)
  ultimately show ?thesis by blast
qed

text \<open>C10, at a record whose only price is \<open>E10 = 0\<close>: the extracted petrol price is the
  number 0, not \<open>null\<close>, and the record is discarded.\<close>

theorem zero_price_discarded_witness:
  "map_option petrol_price (extractStation [] ''Tesco'' zeroPriceRecord 2) = Some (Num 0) \<and>
   map_option diesel_price (extractStation [] ''Tesco'' zeroPriceRecord 2) = Some Null \<and>
   map_option super_price (extractStation [] ''Tesco'' zeroPriceRecord 2) = Some Null \<and>
   keptStation (clockAt []) ''Tesco'' (2, zeroPriceRecord) = None \<and>
   parseStationData (clockAt []) (Arr [zeroPriceRecord]) ''Tesco'' = []"
proof -
  have a: "map_option petrol_price (extractStation [] ''Tesco'' zeroPriceRecord 2) = Some (Num 0)"
          "map_option diesel_price (extractStation [] ''Tesco'' zeroPriceRecord 2) = Some Null"
          "map_option super_price (extractStation [] ''Tesco'' zeroPriceRecord 2) = Some Null"
    by code_simp+
  then obtain ps where ps: "extractStation [] ''Tesco'' zeroPriceRecord 2 = Some ps"
      "petrol_price ps = Num 0" "diesel_price ps = Null" "super_price ps = Null"
    by auto
  have k: "keptStation (clockAt []) ''Tesco'' (2, zeroPriceRecord) = None"
    using zero_price_discarded[where clock = "clockAt []" and retailerName = "''Tesco''"
            and station = zeroPriceRecord and index = 2 and ps = ps and stations = "[]"
            and data = Null] ps
    by (simp add: clockAt_def)
  have e: "parseStationData (clockAt []) (Arr [zeroPriceRecord]) ''Tesco'' = []"
    by code_simp
  show ?thesis using a k e by simp
qed

text \<open>
  C9. The normalizer returns a list on every payload. A payload that is \<open>undefined\<close> or
  \<open>null\<close>, a payload whose record list is not an array, and a payload of unrecognized
  shape (no probed key, not an array, no property holding a non-empty array) give the
  empty list. Otherwise the result is made of what each record of the list contributes
  on its own; a record on which extraction throws contributes nothing, and the records
  before and after it contribute as they do without it, under their own indices.
\<close>

theorem parseStationData_fails_soft:
  "(parseStationDataBody clock data retailerName = None
      \<longleftrightarrow> nullish data \<or> \<not> isArray (stationArrayOf data)) \<and>
   (parseStationDataBody clock data retailerName = None
      \<longrightarrow> parseStationData clock data retailerName = []) \<and>
   (nullish data \<longrightarrow> parseStationData clock data retailerName = []) \<and>
   (\<not> isArray (stationArrayOf data) \<longrightarrow> parseStationData clock data retailerName = []) \<and>
   ((\<forall>key \<in> set probedKeys. \<not> truthy (propOf data key)) \<and> \<not> isArray data \<and>
    (\<forall>key. \<not> isNonEmptyArray (propOf data key))
      \<longrightarrow> parseStationData clock data retailerName = []) \<and>
   (\<not> nullish data \<and> stationArrayOf data = Arr records
      \<longrightarrow> parseStationData clock data retailerName =
            List.map_filter (keptStation clock retailerName) (zip [0 ..< length records] records)) \<and>
   (\<not> nullish data \<and> stationArrayOf data = Arr (before @ bad # after) \<and>
    extractStation (clock (length before)) retailerName bad (length before) = None
      \<longrightarrow> parseStationData clock data retailerName =
            List.map_filter (keptStation clock retailerName) (zip [0 ..< length before] before)
            @ List.map_filter (keptStation clock retailerName)
                (zip [Suc (length before) ..< Suc (length before + length after)] after))"
proof -
  have t: "parseStationDataBody clock data retailerName = None
           \<longleftrightarrow> nullish data \<or> \<not> isArray (stationArrayOf data)"
    by (cases "stationArrayOf data") (simp_all add: parseStationDataBody_def)
  have u: "parseStationData clock data retailerName = []"
    if "parseStationDataBody clock data retailerName = None"
    using that by (simp add: parseStationData_def)
  have a: "parseStationData clock data retailerName = []" if "nullish data"
    using that by (simp add: parseStationData_def parseStationDataBody_def)
  have b: "parseStationData clock data retailerName = []" if "\<not> isArray (stationArrayOf data)"
    using that by (cases "stationArrayOf data")
      (simp_all add: parseStationData_def parseStationDataBody_def)
  have c: "parseStationData clock data retailerName = []"
    if "\<forall>key \<in> set probedKeys. \<not> truthy (propOf data key)" "\<not> isArray data"
       "\<forall>key. \<not> isNonEmptyArray (propOf data key)"
  proof -
    have "find (\<lambda>key. truthy (propOf data key)) probedKeys = None"
      using that(1) by (simp add: find_None_iff)
    moreover have "find (\<lambda>key. isNonEmptyArray (propOf data key)) (ownKeys data) = None"
      using that(3) by (simp add: find_None_iff)
    ultimately have "stationArrayOf data = Arr []"
      using that(2) by (simp add: stationArrayOf_def firstArrayProperty_def)
    then show ?thesis
      by (simp add: parseStationData_def parseStationDataBody_def)
  qed
  have d: "parseStationData clock data retailerName =
            List.map_filter (keptStation clock retailerName) (zip [0 ..< length records] records)"
    if "\<not> nullish data" "stationArrayOf data = Arr records"
    using that by (rule parseStationData_records)
  have e: "parseStationData clock data retailerName =
            List.map_filter (keptStation clock retailerName) (zip [0 ..< length before] before)
            @ List.map_filter (keptStation clock retailerName)
                (zip [Suc (length before) ..< Suc (length before + length after)] after)"
    if "\<not> nullish data" "stationArrayOf data = Arr (before @ bad # after)"
       "extractStation (clock (length before)) retailerName bad (length before) = None"
  proof -
    have "keptStation clock retailerName (length before, bad) = None"
      using that(3) by (simp add: keptStation_def)
    then show ?thesis
      unfolding parseStationData_records[OF that(1,2)] zip_upt_append_Cons
      by (simp add: List.map_filter_def)
  qed
  show ?thesis using t u a b c d e by blast
qed

text \<open>C9, at the payloads \<open>null\<close>, \<open>{stations: "unavailable"}\<close> and
  \<open>{detail: "Not found"}\<close>, and at the example feed, whose second record is \<open>null\<close>: the
  first and fourth records are kept.\<close>

theorem parseStationData_fails_soft_witness:
  "parseStationData (clockAt []) Null ''Tesco'' = [] \<and>
   parseStationData (clockAt []) (Obj [(''stations'', Str ''unavailable'')]) ''Tesco'' = [] \<and>
   parseStationData (clockAt []) (Obj [(''detail'', Str ''Not found'')]) ''Tesco'' = [] \<and>
   extractStation [] ''Tesco'' Null 1 = None \<and>
   parseStationData (clockAt []) exampleFeed ''Tesco'' =
     List.map_filter (keptStation (clockAt []) ''Tesco'') (zip [0 ..< 1] [exampleRecord])
     @ List.map_filter (keptStation (clockAt []) ''Tesco'')
         (zip [2 ..< 4] [zeroPriceRecord, Obj [(''unleaded_price'', Str ''1.5'')]]) \<and>
   map id' (parseStationData (clockAt []) exampleFeed ''Tesco'') = [''Tesco-gcpvj0v07x'', ''Tesco-3'']"
proof -
  let ?after = "[zeroPriceRecord, Obj [(''unleaded_price'', Str ''1.5'')]]"
  have a: "nullish Null" by (simp add: nullish_def)
  have b: "\<not> isArray (stationArrayOf (Obj [(''stations'', Str ''unavailable'')]))"
    by code_simp
  have c: "(\<forall>key \<in> set probedKeys. \<not> truthy (propOf (Obj [(''detail'', Str ''Not found'')]) key)) \<and>
           \<not> isArray (Obj [(''detail'', Str ''Not found'')]) \<and>
           (\<forall>key. \<not> isNonEmptyArray (propOf (Obj [(''detail'', Str ''Not found'')]) key))"
    by (simp add: probedKeys_def isNonEmptyArray_def)
  have d: "\<not> nullish exampleFeed \<and>
           stationArrayOf exampleFeed = Arr ([exampleRecord] @ Null # ?after)"
    by code_simp
  have e: "extractStation (clockAt [] (length [exampleRecord])) ''Tesco'' Null
             (length [exampleRecord]) = None"
    by code_simp
  have f: "map id' (parseStationData (clockAt []) exampleFeed ''Tesco'') = [''Tesco-gcpvj0v07x'', ''Tesco-3'']"
    by code_simp
  have r1: "parseStationData (clockAt []) Null ''Tesco'' = []"
    by (rule mp[OF parseStationData_fails_soft[THEN conjunct2, THEN conjunct2, THEN conjunct1] a])
  have r2: "parseStationData (clockAt []) (Obj [(''stations'', Str ''unavailable'')]) ''Tesco'' = []"
    by (rule mp[OF parseStationData_fails_soft[THEN conjunct2, THEN conjunct2, THEN conjunct2,
                     THEN conjunct1] b])
  have r3: "parseStationData (clockAt []) (Obj [(''detail'', Str ''Not found'')]) ''Tesco'' = []"
    by (rule mp[OF parseStationData_fails_soft[THEN conjunct2, THEN conjunct2, THEN conjunct2,
                     THEN conjunct2, THEN conjunct1] c])
  have r4: "parseStationData (clockAt []) exampleFeed ''Tesco'' =
     List.map_filter (keptStation (clockAt []) ''Tesco'')
       (zip [0 ..< length [exampleRecord]] [exampleRecord])
     @ List.map_filter (keptStation (clockAt []) ''Tesco'')
         (zip [Suc (length [exampleRecord]) ..< Suc (length [exampleRecord] + length ?after)] ?after)"
    by (rule mp[OF parseStationData_fails_soft[where clock = "clockAt []" and data = exampleFeed
                       and retailerName = "''Tesco''" and before = "[exampleRecord]"
                       and bad = Null and after = ?after,
                     THEN conjunct2, THEN conjunct2, THEN conjunct2,
                     THEN conjunct2, THEN conjunct2, THEN conjunct2]
                   conjI[OF conjunct1[OF d] conjI[OF conjunct2[OF d] e]]])
  have idx: "[0 ..< length [exampleRecord]] = [0 ..< 1]"
       "[Suc (length [exampleRecord]) ..< Suc (length [exampleRecord] + length ?after)] = [2 ..< 4]"
    by (simp_all add: eval_nat_numeral)
  have r5: "parseStationData (clockAt []) exampleFeed ''Tesco'' =
     List.map_filter (keptStation (clockAt []) ''Tesco'') (zip [0 ..< 1] [exampleRecord])
     @ List.map_filter (keptStation (clockAt []) ''Tesco'') (zip [2 ..< 4] ?after)"
    using r4 by (simp only: idx)
  have e1: "extractStation [] ''Tesco'' Null 1 = None"
    by code_simp
  show ?thesis
    by (intro conjI) (rule r1 r2 r3 e1 r5 f)+
qed

section \<open>Properties of the distance sort\<close>







section \<open>Properties of the member prices\<close>



end
